theory Spec2Isabelle
  imports Complex_Main
begin

section \<open>Numbers, errors and the geometry library\<close>

text \<open>
  The pipeline of \<^verbatim>\<open>direct_run.py\<close> computes with IEEE doubles. They are modelled
  by their value: a real number, or one of the three special values. Rounding is not
  modelled; the special values are, since the code tests for them (\<^verbatim>\<open>np.isfinite\<close>,
  \<^verbatim>\<open>isna\<close>). pandas represents a missing number by NaN, and so does the model.
\<close>

datatype pyfloat = Finite real | PosInf | NegInf | NaN

fun isfinite :: "pyfloat \<Rightarrow> bool" where
  "isfinite (Finite _) = True"
| "isfinite _ = False"

fun isna :: "pyfloat \<Rightarrow> bool" where
  "isna NaN = True"
| "isna _ = False"

text \<open>Comparison \<^verbatim>\<open>a <= b\<close> and \<^verbatim>\<open>a < b\<close>: false as soon as one side is NaN.\<close>

fun fle :: "pyfloat \<Rightarrow> pyfloat \<Rightarrow> bool" where
  "fle NaN _ = False"
| "fle _ NaN = False"
| "fle (Finite a) (Finite b) = (a \<le> b)"
| "fle NegInf _ = True"
| "fle _ PosInf = True"
| "fle _ _ = False"

fun flt :: "pyfloat \<Rightarrow> pyfloat \<Rightarrow> bool" where
  "flt NaN _ = False"
| "flt _ NaN = False"
| "flt (Finite a) (Finite b) = (a < b)"
| "flt PosInf _ = False"
| "flt _ NegInf = False"
| "flt _ _ = True"

definition fgt :: "pyfloat \<Rightarrow> pyfloat \<Rightarrow> bool" where
  "fgt a b = flt b a"

text \<open>
  Division of two columns (numpy semantics: no exception, a zero divisor gives an
  infinity or NaN).
\<close>

fun fdiv :: "pyfloat \<Rightarrow> pyfloat \<Rightarrow> pyfloat" where
  "fdiv NaN _ = NaN"
| "fdiv _ NaN = NaN"
| "fdiv (Finite a) (Finite b) =
     (if b \<noteq> 0 then Finite (a / b)
      else if 0 < a then PosInf else if a < 0 then NegInf else NaN)"
| "fdiv (Finite a) _ = Finite 0"
| "fdiv PosInf (Finite b) = (if b < 0 then NegInf else PosInf)"
| "fdiv NegInf (Finite b) = (if b < 0 then PosInf else NegInf)"
| "fdiv _ _ = NaN"

text \<open>
  The exceptions that leave the functions of the pipeline, each with its message.
  \<^verbatim>\<open>FileNotFoundError\<close> and \<^verbatim>\<open>ValueError\<close> are the built-in classes that
  \<^verbatim>\<open>load_shapefiles\<close> raises (the specification's \<^verbatim>\<open>NotFoundError\<close> and
  \<^verbatim>\<open>SchemaError\<close>). \<^verbatim>\<open>LibraryError\<close> stands
  for an exception raised inside the geometry library, with its message. The last
  constructor is the wrapper that the specification calls \<^verbatim>\<open>OverlayError\<close>, with the
  exception it wraps; the source defines no such class and no function below builds it.
\<close>

datatype error =
    FileNotFoundError string
  | ValueError string
  | KeyError string
  | LibraryError string
  | OverlayError error

text \<open>
  The geometry library (shapely, behind geopandas) is outside the repository. The
  pipeline takes it as a record of the operations it calls; the predicate and the
  overlay may raise, which is a message on the left.
\<close>

type_synonym bbox = "real \<times> real \<times> real \<times> real"

record 'g geos =
  bounds :: "'g \<Rightarrow> bbox"
  intersects :: "'g \<Rightarrow> 'g \<Rightarrow> string + bool"
  intersection :: "'g \<Rightarrow> 'g \<Rightarrow> string + 'g"
  is_empty :: "'g \<Rightarrow> bool"
  area :: "'g \<Rightarrow> pyfloat"
  transform :: "string \<Rightarrow> string \<Rightarrow> 'g \<Rightarrow> string + 'g"

section \<open>Layers\<close>

text \<open>
  A GeoDataFrame: the labels of its attribute columns, its rows (the attribute values
  in the order of the labels, and the geometry) and its reference system.
\<close>

record 'g feature =
  vals :: "string list"
  geometry :: 'g

record 'g gdf =
  columns :: "string list"
  rows :: "'g feature list"
  crs :: string

definition cell :: "string list \<Rightarrow> 'g feature \<Rightarrow> string \<Rightarrow> string option" where
  "cell cols f name = map_of (zip cols (vals f)) name"

text \<open>\<^verbatim>\<open>getattr(row, name, "")\<close>\<close>

definition getattr :: "string list \<Rightarrow> 'g feature \<Rightarrow> string \<Rightarrow> string" where
  "getattr cols f name = (case cell cols f name of Some v \<Rightarrow> v | None \<Rightarrow> '''')"

text \<open>
  Years are formatted into the column labels (\<^verbatim>\<open>f"PREF{source_year}"\<close>). They are
  natural numbers here: a calendar year.
\<close>

definition digit_char :: "nat \<Rightarrow> char" where
  "digit_char d = ''0123456789'' ! d"

fun str_nat :: "nat \<Rightarrow> string" where
  "str_nat n = (if n < 10 then [digit_char n] else str_nat (n div 10) @ [digit_char (n mod 10)])"

declare str_nat.simps [simp del]

definition pref_col :: "nat \<Rightarrow> string" where
  "pref_col y = ''PREF'' @ str_nat y"

definition city_col :: "nat \<Rightarrow> string" where
  "city_col y = ''CITY'' @ str_nat y"

definition gun_col :: "nat \<Rightarrow> string" where
  "gun_col y = ''GUN'' @ str_nat y"

definition code_col :: "nat \<Rightarrow> string" where
  "code_col y = ''City Code '' @ str_nat y"

section \<open>The overlay engine: \<^verbatim>\<open>calculate_intersections\<close>\<close>

text \<open>
  One record of the result: the identifier columns (a dict, so a later key replaces an
  earlier equal one), the area of the intersection and its geometry.
\<close>

record 'g irec =
  ids :: "string \<rightharpoonup> string"
  intersection_area :: pyfloat
  igeometry :: 'g

definition make_record ::
  "nat \<Rightarrow> nat \<Rightarrow> string list \<Rightarrow> 'g feature \<Rightarrow> string list \<Rightarrow> 'g feature \<Rightarrow> pyfloat \<Rightarrow> 'g \<Rightarrow> 'g irec" where
  "make_record sy ty scols s tcols t a g =
     \<lparr> ids = Map.empty
         (pref_col sy \<mapsto> getattr scols s (pref_col sy),
          city_col sy \<mapsto> getattr scols s (city_col sy),
          gun_col sy \<mapsto> getattr scols s (gun_col sy),
          code_col sy \<mapsto> getattr scols s ''N03_007'',
          pref_col ty \<mapsto> getattr tcols t (pref_col ty),
          city_col ty \<mapsto> getattr tcols t (city_col ty),
          gun_col ty \<mapsto> getattr tcols t (gun_col ty),
          code_col ty \<mapsto> getattr tcols t ''N03_007''),
       intersection_area = a,
       igeometry = g \<rparr>"

text \<open>The negligible-area floor \<^verbatim>\<open>1e-10\<close>.\<close>

definition area_floor :: pyfloat where
  "area_floor = Finite (1 / 10 ^ 10)"

text \<open>
  The body of the inner loop, for one source row and one candidate target row:
  an exception of the library, no record (\<^verbatim>\<open>continue\<close>, or the test fails), or a record.
\<close>

definition process_pair ::
  "'g geos \<Rightarrow> nat \<Rightarrow> nat \<Rightarrow> string list \<Rightarrow> string list \<Rightarrow> 'g feature \<Rightarrow> 'g feature
     \<Rightarrow> error + 'g irec option" where
  "process_pair lib sy ty scols tcols s t =
     (case intersects lib (geometry s) (geometry t) of
        Inl e \<Rightarrow> Inl (LibraryError e)
      | Inr b \<Rightarrow>
          if b then
            (case intersection lib (geometry s) (geometry t) of
               Inl e \<Rightarrow> Inl (LibraryError e)
             | Inr g \<Rightarrow>
                 if is_empty lib g then Inr None
                 else let a = area lib g in
                   if fle a area_floor then Inr None
                   else Inr (Some (make_record sy ty scols s tcols t a g)))
          else Inr None)"

text \<open>
  The query of the spatial index: the target rows whose bounding box meets the box of
  the source geometry, taken in the order of the layer.
\<close>

fun bbox_intersects :: "bbox \<Rightarrow> bbox \<Rightarrow> bool" where
  "bbox_intersects (x1, y1, x2, y2) (a1, b1, a2, b2) =
     (\<not> (x2 < a1 \<or> a2 < x1 \<or> y2 < b1 \<or> b2 < y1))"

definition possible_matches :: "'g geos \<Rightarrow> 'g gdf \<Rightarrow> 'g feature \<Rightarrow> 'g feature list" where
  "possible_matches lib tgt s =
     filter (\<lambda>t. bbox_intersects (bounds lib (geometry t)) (bounds lib (geometry s))) (rows tgt)"

fun targets_loop ::
  "'g geos \<Rightarrow> nat \<Rightarrow> nat \<Rightarrow> string list \<Rightarrow> string list \<Rightarrow> 'g feature \<Rightarrow> 'g feature list
     \<Rightarrow> 'g irec list \<Rightarrow> error + 'g irec list" where
  "targets_loop lib sy ty scols tcols s [] acc = Inr acc"
| "targets_loop lib sy ty scols tcols s (t # ts) acc =
     (case process_pair lib sy ty scols tcols s t of
        Inl e \<Rightarrow> Inl e
      | Inr None \<Rightarrow> targets_loop lib sy ty scols tcols s ts acc
      | Inr (Some r) \<Rightarrow> targets_loop lib sy ty scols tcols s ts (acc @ [r]))"

fun sources_loop ::
  "'g geos \<Rightarrow> nat \<Rightarrow> nat \<Rightarrow> string list \<Rightarrow> 'g gdf \<Rightarrow> 'g feature list
     \<Rightarrow> 'g irec list \<Rightarrow> error + 'g irec list" where
  "sources_loop lib sy ty scols tgt [] acc = Inr acc"
| "sources_loop lib sy ty scols tgt (s # ss) acc =
     (case targets_loop lib sy ty scols (columns tgt) s (possible_matches lib tgt s) acc of
        Inl e \<Rightarrow> Inl e
      | Inr acc' \<Rightarrow> sources_loop lib sy ty scols tgt ss acc')"

text \<open>
  \<^verbatim>\<open>calculate_intersections\<close>: the list of records, empty when nothing intersects; the
  \<^verbatim>\<open>except\<close> clause prints and raises the exception again.
\<close>

definition calculate_intersections ::
  "'g geos \<Rightarrow> 'g gdf \<Rightarrow> 'g gdf \<Rightarrow> nat \<Rightarrow> nat \<Rightarrow> error + 'g irec list" where
  "calculate_intersections lib source_gdf target_gdf sy ty =
     sources_loop lib sy ty (columns source_gdf) target_gdf (rows source_gdf) []"

text \<open>The source rows paired with their candidates, in the order the loops visit them.\<close>

definition pair_records ::
  "'g geos \<Rightarrow> nat \<Rightarrow> nat \<Rightarrow> string list \<Rightarrow> string list \<Rightarrow> 'g feature \<Rightarrow> 'g feature \<Rightarrow> 'g irec list" where
  "pair_records lib sy ty scols tcols s t =
     (case process_pair lib sy ty scols tcols s t of Inr (Some r) \<Rightarrow> [r] | _ \<Rightarrow> [])"

section \<open>The weight calculator: \<^verbatim>\<open>calculate_weights\<close>\<close>

text \<open>
  The two loops that fill \<^verbatim>\<open>source_areas\<close> and \<^verbatim>\<open>target_areas\<close>: the key is the
  city of the row (\<^verbatim>\<open>row[f"CITY{year}"]\<close>, a KeyError when the column is absent), the
  value the area of the row's polygon; a later row with the same city replaces the
  earlier entry.
\<close>

fun area_lookup ::
  "'g geos \<Rightarrow> string list \<Rightarrow> string \<Rightarrow> 'g feature list \<Rightarrow> (string \<rightharpoonup> pyfloat)
     \<Rightarrow> error + (string \<rightharpoonup> pyfloat)" where
  "area_lookup lib cols key [] m = Inr m"
| "area_lookup lib cols key (r # rs) m =
     (case cell cols r key of
        None \<Rightarrow> Inl (KeyError key)
      | Some c \<Rightarrow> area_lookup lib cols key rs (m(c \<mapsto> area lib (geometry r))))"

text \<open>
  \<^verbatim>\<open>intersections[name]\<close>: the frame built from the records has a column for every key
  of a record; a record without the key has a missing value there.
\<close>

definition column_of :: "'g irec list \<Rightarrow> string \<Rightarrow> error + string option list" where
  "column_of recs name =
     (if list_ex (\<lambda>r. ids r name \<noteq> None) recs then Inr (map (\<lambda>r. ids r name) recs)
      else Inl (KeyError name))"

text \<open>\<^verbatim>\<open>Series.map(dict)\<close>: a value that is no key of the dict becomes NaN.\<close>

definition lookup_area :: "(string \<rightharpoonup> pyfloat) \<Rightarrow> string option \<Rightarrow> pyfloat" where
  "lookup_area m c =
     (case c of None \<Rightarrow> NaN | Some k \<Rightarrow> (case m k of None \<Rightarrow> NaN | Some a \<Rightarrow> a))"

definition map_areas :: "(string \<rightharpoonup> pyfloat) \<Rightarrow> string option list \<Rightarrow> pyfloat list" where
  "map_areas m cs = map (lookup_area m) cs"

datatype warning = MissingSource nat | MissingTarget nat | InvalidWeights nat

text \<open>A row of the crosswalk: the identifier columns and the weight.\<close>

record xrow =
  xids :: "string \<rightharpoonup> string"
  weight :: pyfloat

text \<open>A warning is printed with the number of rows concerned, when there is one.\<close>

definition warn :: "(nat \<Rightarrow> warning) \<Rightarrow> 'a list \<Rightarrow> warning list" where
  "warn kind found = (if found \<noteq> [] then [kind (length found)] else [])"

definition quotients :: "'g irec list \<Rightarrow> pyfloat list \<Rightarrow> pyfloat list" where
  "quotients recs target_area =
     map (\<lambda>(r, ta). fdiv (intersection_area r) ta) (zip recs target_area)"

definition repair :: "pyfloat \<Rightarrow> pyfloat" where
  "repair w = (if isfinite w then w else Finite 0)"

definition calculate_weights ::
  "'g geos \<Rightarrow> 'g irec list \<Rightarrow> 'g gdf \<Rightarrow> 'g gdf \<Rightarrow> nat \<Rightarrow> nat
     \<Rightarrow> error + (xrow list \<times> warning list)" where
  "calculate_weights lib intersections source_gdf target_gdf sy ty =
     (case area_lookup lib (columns source_gdf) (city_col sy) (rows source_gdf) Map.empty of
        Inl e \<Rightarrow> Inl e
      | Inr source_areas \<Rightarrow>
     (case area_lookup lib (columns target_gdf) (city_col ty) (rows target_gdf) Map.empty of
        Inl e \<Rightarrow> Inl e
      | Inr target_areas \<Rightarrow>
     (case column_of intersections (city_col sy) of
        Inl e \<Rightarrow> Inl e
      | Inr source_cities \<Rightarrow>
     (case column_of intersections (city_col ty) of
        Inl e \<Rightarrow> Inl e
      | Inr target_cities \<Rightarrow>
          let source_area = map_areas source_areas source_cities;
              target_area = map_areas target_areas target_cities;
              missing_source = filter isna source_area;
              missing_target = filter isna target_area;
              w1 = warn MissingSource missing_source;
              w2 = warn MissingTarget missing_target;
              weight0 = quotients intersections target_area;
              invalid_weights = filter (\<lambda>w. \<not> isfinite w) weight0;
              w3 = warn InvalidWeights invalid_weights;
              weight1 = (if invalid_weights \<noteq> [] then map repair weight0 else weight0);
              crosswalk = map (\<lambda>(r, w). \<lparr> xids = ids r, weight = w \<rparr>) (zip intersections weight1)
          in Inr (crosswalk, w1 @ w2 @ w3)))))"

text \<open>The quotient that line 193 computes for one record, given the lookup of the target areas.\<close>

definition weight_of :: "(string \<rightharpoonup> pyfloat) \<Rightarrow> nat \<Rightarrow> 'g irec \<Rightarrow> pyfloat" where
  "weight_of target_areas ty r =
     fdiv (intersection_area r) (lookup_area target_areas (ids r (city_col ty)))"

section \<open>The threshold filter\<close>

text \<open>\<^verbatim>\<open>crosswalk[crosswalk['weight'] > weight_threshold]\<close>\<close>

definition threshold_filter :: "pyfloat \<Rightarrow> xrow list \<Rightarrow> xrow list" where
  "threshold_filter t crosswalk = filter (\<lambda>r. fgt (weight r) t) crosswalk"

definition default_weight_threshold :: pyfloat where
  "default_weight_threshold = Finite (1 / 1000)"

section \<open>Files: \<^verbatim>\<open>load_shapefiles\<close> and \<^verbatim>\<open>save_crosswalk\<close>\<close>

text \<open>
  The file system maps a path to what is stored there: a boundary layer, or a table
  that \<^verbatim>\<open>save_crosswalk\<close> wrote.
\<close>

datatype 'g stored = Shapefile "'g gdf" | Workbook "xrow list"

type_synonym 'g fs = "string \<rightharpoonup> 'g stored"

definition is_absolute :: "string \<Rightarrow> bool" where
  "is_absolute p = (case p of [] \<Rightarrow> False | c # _ \<Rightarrow> c = CHR ''/'')"

text \<open>\<^verbatim>\<open>project_root / rel\<close>, for a relative second part.\<close>

definition path_join :: "string \<Rightarrow> string \<Rightarrow> string" where
  "path_join project_root rel = project_root @ ''/'' @ rel"

definition shapefile_path :: "string \<Rightarrow> nat \<Rightarrow> string option \<Rightarrow> string" where
  "shapefile_path project_root y given =
     (case given of
        None \<Rightarrow> path_join project_root (''Data/jpn'' @ str_nat y @ ''/jpn'' @ str_nat y @ ''geo.shp'')
      | Some p \<Rightarrow> p)"

definition read_file :: "'g fs \<Rightarrow> string \<Rightarrow> error + 'g gdf" where
  "read_file fs p =
     (case fs p of
        Some (Shapefile g) \<Rightarrow> Inr g
      | _ \<Rightarrow> Inl (LibraryError (''cannot read '' @ p)))"

definition quoted :: "string \<Rightarrow> string" where
  "quoted s = [CHR 0x27] @ s @ [CHR 0x27]"

fun validate_columns :: "string list \<Rightarrow> 'g gdf \<Rightarrow> 'g gdf \<Rightarrow> error option" where
  "validate_columns [] source_gdf target_gdf = None"
| "validate_columns (col # cols) source_gdf target_gdf =
     (if col \<notin> set (columns source_gdf)
      then Some (ValueError (''Column '' @ quoted col @ '' not found in source shapefile''))
      else if col \<notin> set (columns target_gdf)
      then Some (ValueError (''Column '' @ quoted col @ '' not found in target shapefile''))
      else validate_columns cols source_gdf target_gdf)"

text \<open>
  \<^verbatim>\<open>rename(columns={...})\<close>: the entry for \<^verbatim>\<open>GUN\<close> has the value \<^verbatim>\<open>None\<close> when the
  layer has no such column, and is then used for no label.
\<close>

definition rename_label :: "nat \<Rightarrow> bool \<Rightarrow> string \<Rightarrow> string" where
  "rename_label y has_gun c =
     (if c = ''PREF'' then pref_col y
      else if c = ''CITY'' then city_col y
      else if c = ''GUN'' \<and> has_gun then gun_col y
      else c)"

definition rename_columns :: "nat \<Rightarrow> 'g gdf \<Rightarrow> 'g gdf" where
  "rename_columns y g =
     g\<lparr>columns := map (rename_label y (''GUN'' \<in> set (columns g))) (columns g)\<rparr>"

definition required_cols :: "string list" where
  "required_cols = [''PREF'', ''CITY'']"

definition load_shapefiles ::
  "'g fs \<Rightarrow> string \<Rightarrow> nat \<Rightarrow> nat \<Rightarrow> string option \<Rightarrow> string option
     \<Rightarrow> error + ('g gdf \<times> 'g gdf)" where
  "load_shapefiles fs project_root sy ty source_path target_path =
     (let sp = shapefile_path project_root sy source_path;
          tp = shapefile_path project_root ty target_path
      in if fs sp = None then Inl (FileNotFoundError (''Source shapefile not found: '' @ sp))
         else if fs tp = None then Inl (FileNotFoundError (''Target shapefile not found: '' @ tp))
         else
           (case read_file fs sp of
              Inl e \<Rightarrow> Inl e
            | Inr source_gdf \<Rightarrow>
           (case read_file fs tp of
              Inl e \<Rightarrow> Inl e
            | Inr target_gdf \<Rightarrow>
           (case validate_columns required_cols source_gdf target_gdf of
              Some e \<Rightarrow> Inl e
            | None \<Rightarrow> Inr (rename_columns sy source_gdf, rename_columns ty target_gdf)))))"

definition resolve_output :: "string \<Rightarrow> string \<Rightarrow> string" where
  "resolve_output project_root output_path =
     (if \<not> is_absolute output_path then path_join project_root output_path else output_path)"

definition save_crosswalk :: "'g fs \<Rightarrow> string \<Rightarrow> xrow list \<Rightarrow> string \<Rightarrow> 'g fs" where
  "save_crosswalk fs project_root crosswalk output_path =
     fs(resolve_output project_root output_path \<mapsto> Workbook crosswalk)"

section \<open>The pipeline: \<^verbatim>\<open>create_crosswalk\<close>\<close>

text \<open>\<^verbatim>\<open>target_gdf.to_crs(source_gdf.crs)\<close>: every geometry is transformed.\<close>

fun transform_rows ::
  "'g geos \<Rightarrow> string \<Rightarrow> string \<Rightarrow> 'g feature list \<Rightarrow> error + 'g feature list" where
  "transform_rows lib src dst [] = Inr []"
| "transform_rows lib src dst (f # fs) =
     (case transform lib src dst (geometry f) of
        Inl e \<Rightarrow> Inl (LibraryError e)
      | Inr g \<Rightarrow>
          (case transform_rows lib src dst fs of
             Inl e \<Rightarrow> Inl e
           | Inr fs' \<Rightarrow> Inr (f\<lparr>geometry := g\<rparr> # fs')))"

definition to_crs :: "'g geos \<Rightarrow> 'g gdf \<Rightarrow> string \<Rightarrow> error + 'g gdf" where
  "to_crs lib g dst =
     (case transform_rows lib (crs g) dst (rows g) of
        Inl e \<Rightarrow> Inl e
      | Inr rs \<Rightarrow> Inr (g\<lparr>rows := rs, crs := dst\<rparr>))"

text \<open>The two layers after the test \<^verbatim>\<open>if source_gdf.crs != target_gdf.crs\<close>.\<close>

definition ensure_crs_match ::
  "'g geos \<Rightarrow> 'g gdf \<Rightarrow> 'g gdf \<Rightarrow> error + ('g gdf \<times> 'g gdf)" where
  "ensure_crs_match lib source_gdf target_gdf =
     (if crs source_gdf \<noteq> crs target_gdf then
        (case to_crs lib target_gdf (crs source_gdf) of
           Inl e \<Rightarrow> Inl e
         | Inr target_gdf' \<Rightarrow> Inr (source_gdf, target_gdf'))
      else Inr (source_gdf, target_gdf))"

definition crosswalk_path :: "string \<Rightarrow> nat \<Rightarrow> nat \<Rightarrow> string option \<Rightarrow> string" where
  "crosswalk_path project_root sy ty given =
     (case given of
        None \<Rightarrow> path_join project_root (''Crosswalk/Crosswalk_'' @ str_nat sy @ ''_'' @ str_nat ty @ ''.xlsx'')
      | Some p \<Rightarrow> p)"

text \<open>
  \<^verbatim>\<open>create_crosswalk\<close> returns the table; the file system after the call is returned
  with it. The messages it prints are not part of the result.
\<close>

definition create_crosswalk ::
  "'g geos \<Rightarrow> string \<Rightarrow> 'g fs \<Rightarrow> nat \<Rightarrow> nat \<Rightarrow> string option \<Rightarrow> string option \<Rightarrow> string option
     \<Rightarrow> pyfloat \<Rightarrow> error + (xrow list \<times> 'g fs)" where
  "create_crosswalk lib project_root fs sy ty source_path target_path output_path weight_threshold =
     (case load_shapefiles fs project_root sy ty source_path target_path of
        Inl e \<Rightarrow> Inl e
      | Inr (source_gdf, target_gdf0) \<Rightarrow>
     (case ensure_crs_match lib source_gdf target_gdf0 of
        Inl e \<Rightarrow> Inl e
      | Inr (source_gdf, target_gdf) \<Rightarrow>
     (case calculate_intersections lib source_gdf target_gdf sy ty of
        Inl e \<Rightarrow> Inl e
      | Inr intersections \<Rightarrow>
          if length intersections = 0 then Inr ([], fs)
          else
            (case calculate_weights lib intersections source_gdf target_gdf sy ty of
               Inl e \<Rightarrow> Inl e
             | Inr (crosswalk0, warnings) \<Rightarrow>
                 let crosswalk = threshold_filter weight_threshold crosswalk0;
                     out = crosswalk_path project_root sy ty output_path
                 in Inr (crosswalk, save_crosswalk fs project_root crosswalk out)))))"

text \<open>
  The path that \<^verbatim>\<open>save_crosswalk\<close> writes to, and a frame in which every row has a
  value for every column (as every frame of pandas has).
\<close>

definition output_file :: "string \<Rightarrow> nat \<Rightarrow> nat \<Rightarrow> string option \<Rightarrow> string" where
  "output_file project_root sy ty output_path =
     resolve_output project_root (crosswalk_path project_root sy ty output_path)"

definition well_formed :: "'g gdf \<Rightarrow> bool" where
  "well_formed g = list_all (\<lambda>r. length (vals r) = length (columns g)) (rows g)"


section \<open>A small geometry library: axis-parallel boxes\<close>

text \<open>
  An instance of the library on which the pipeline can be run: closed boxes with sides
  parallel to the axes. Two boxes that share an edge intersect in a box of area 0.
\<close>

datatype box = Box real real real real | EmptyBox

fun box_bounds :: "box \<Rightarrow> bbox" where
  "box_bounds (Box x1 y1 x2 y2) = (x1, y1, x2, y2)"
| "box_bounds EmptyBox = (1, 1, 0, 0)"

fun box_meets :: "box \<Rightarrow> box \<Rightarrow> bool" where
  "box_meets (Box x1 y1 x2 y2) (Box a1 b1 a2 b2) =
     (x1 \<le> a2 \<and> a1 \<le> x2 \<and> y1 \<le> b2 \<and> b1 \<le> y2)"
| "box_meets _ _ = False"

fun box_inter :: "box \<Rightarrow> box \<Rightarrow> box" where
  "box_inter (Box x1 y1 x2 y2) (Box a1 b1 a2 b2) =
     (if box_meets (Box x1 y1 x2 y2) (Box a1 b1 a2 b2)
      then Box (max x1 a1) (max y1 b1) (min x2 a2) (min y2 b2) else EmptyBox)"
| "box_inter _ _ = EmptyBox"

fun box_area :: "box \<Rightarrow> pyfloat" where
  "box_area (Box x1 y1 x2 y2) = Finite ((x2 - x1) * (y2 - y1))"
| "box_area EmptyBox = Finite 0"

fun box_scale :: "real \<Rightarrow> box \<Rightarrow> box" where
  "box_scale k (Box x1 y1 x2 y2) = Box (k * x1) (k * y1) (k * x2) (k * y2)"
| "box_scale k EmptyBox = EmptyBox"

definition box_transform :: "string \<Rightarrow> string \<Rightarrow> box \<Rightarrow> string + box" where
  "box_transform src dst g =
     (if src = ''grid-cm'' \<and> dst = ''grid-m'' then Inr (box_scale (1 / 100) g)
      else if src = dst then Inr g
      else Inl ''unknown reference system'')"

definition box_geos :: "box geos" where
  "box_geos =
     \<lparr> bounds = box_bounds,
       intersects = (\<lambda>a b. Inr (box_meets a b)),
       intersection = (\<lambda>a b. Inr (box_inter a b)),
       is_empty = (\<lambda>g. g = EmptyBox),
       area = box_area,
       transform = box_transform \<rparr>"

text \<open>The same library with an overlay that raises on every pair.\<close>

definition faulty_geos :: "box geos" where
  "faulty_geos = box_geos\<lparr>intersection := (\<lambda>a b. Inl ''TopologyException'')\<rparr>"

definition layer :: "string \<Rightarrow> (string \<times> string \<times> box) list \<Rightarrow> box gdf" where
  "layer c fs =
     \<lparr> columns = [''PREF'', ''CITY''],
       rows = map (\<lambda>(p, n, g). \<lparr> vals = [p, n], geometry = g \<rparr>) fs,
       crs = c \<rparr>"

text \<open>A library whose predicate answers yes for every pair, and the layers of the examples.\<close>

definition lenient_geos :: "box geos" where
  "lenient_geos = box_geos\<lparr>intersects := (\<lambda>a b. Inr True)\<rparr>"

definition source_A :: "box gdf" where
  "source_A = rename_columns 2000 (layer ''grid-m'' [(''P'', ''A'', Box 0 0 10 10)])"

definition target_BD :: "box gdf" where
  "target_BD = rename_columns 1980 (layer ''grid-m'' [(''P'', ''B'', Box 0 0 5 10), (''P'', ''D'', Box 10 0 20 10)])"

definition target_far :: "box gdf" where
  "target_far = rename_columns 1980 (layer ''grid-m'' [(''P'', ''Z'', Box 20 0 30 10)])"

definition feat :: "string \<Rightarrow> string \<Rightarrow> box \<Rightarrow> box feature" where
  "feat p n g = \<lparr> vals = [p, n], geometry = g \<rparr>"

definition target_D :: "box gdf" where
  "target_D = rename_columns 1980 (layer ''grid-m'' [(''P'', ''D'', Box 10 0 20 10)])"


definition target_E0 :: "box gdf" where
  "target_E0 = rename_columns 1980 (layer ''grid-m'' [(''P'', ''E'', Box 5 0 5 10)])"

definition target_E :: "box gdf" where
  "target_E = rename_columns 1980 (layer ''grid-m'' [(''P'', ''E'', Box 5 0 25 10)])"

definition rec_AE :: "box irec" where
  "rec_AE = make_record 2000 1980 (columns source_A) (feat ''P'' ''A'' (Box 0 0 10 10))
            (columns target_E) (feat ''P'' ''E'' (Box 5 0 25 10)) (Finite 50) (Box 5 0 10 10)"

text \<open>Layers as they are stored, and file systems for the examples.\<close>

definition raw_A :: "box gdf" where
  "raw_A = layer ''grid-m'' [(''P'', ''A'', Box 0 0 10 10)]"

definition raw_BC :: "box gdf" where
  "raw_BC = layer ''grid-m'' [(''P'', ''B'', Box 0 0 5 10), (''P'', ''C'', Box 5 0 10 10)]"

definition raw_nopref :: "box gdf" where
  "raw_nopref =
     \<lparr> columns = [''CITY''], rows = [\<lparr> vals = [''B''], geometry = Box 0 0 5 10 \<rparr>], crs = ''grid-m'' \<rparr>"

definition raw_gun :: "box gdf" where
  "raw_gun =
     \<lparr> columns = [''PREF'', ''CITY'', ''GUN''],
       rows = [\<lparr> vals = [''P'', ''A'', ''G''], geometry = Box 0 0 10 10 \<rparr>], crs = ''grid-m'' \<rparr>"

definition shp_2000 :: string where
  "shp_2000 = ''/repo/Data/jpn2000/jpn2000geo.shp''"

definition shp_1980 :: string where
  "shp_1980 = ''/repo/Data/jpn1980/jpn1980geo.shp''"

definition fs_tiled :: "box fs" where
  "fs_tiled = [shp_2000 \<mapsto> Shapefile raw_A, shp_1980 \<mapsto> Shapefile raw_BC]"

definition fs_nothing :: "box fs" where
  "fs_nothing = Map.empty"

definition fs_source_only :: "box fs" where
  "fs_source_only = [shp_2000 \<mapsto> Shapefile raw_A]"

definition fs_nopref :: "box fs" where
  "fs_nopref = [shp_2000 \<mapsto> Shapefile raw_A, shp_1980 \<mapsto> Shapefile raw_nopref]"

definition target_BC :: "box gdf" where
  "target_BC = rename_columns 1980 raw_BC"



definition xlsx_2000_1980 :: string where
  "xlsx_2000_1980 = ''/repo/Crosswalk/Crosswalk_2000_1980.xlsx''"

definition rec_AB :: "box irec" where
  "rec_AB = make_record 2000 1980 (columns source_A) (feat ''P'' ''A'' (Box 0 0 10 10))
            (columns target_BC) (feat ''P'' ''B'' (Box 0 0 5 10)) (Finite 50) (Box 0 0 5 10)"

definition rec_AC :: "box irec" where
  "rec_AC = make_record 2000 1980 (columns source_A) (feat ''P'' ''A'' (Box 0 0 10 10))
            (columns target_BC) (feat ''P'' ''C'' (Box 5 0 10 10)) (Finite 50) (Box 5 0 10 10)"

definition raw_strips :: "box gdf" where
  "raw_strips = layer ''grid-m''
     [(''P'', ''S1'', Box 0 0 5 1), (''P'', ''S2'', Box 0 50 20 51), (''P'', ''S3'', Box 0 90 10 91)]"

definition raw_T :: "box gdf" where
  "raw_T = layer ''grid-m'' [(''P'', ''T'', Box 0 0 100 100)]"

definition fs_strips :: "box fs" where
  "fs_strips = [shp_2000 \<mapsto> Shapefile raw_strips, shp_1980 \<mapsto> Shapefile raw_T]"



definition tbl_tiled :: "xrow list" where
  "tbl_tiled = [\<lparr> xids = ids rec_AB, weight = Finite 1 \<rparr>, \<lparr> xids = ids rec_AC, weight = Finite 1 \<rparr>]"

definition raw_twice :: "box gdf" where
  "raw_twice = layer ''grid-m'' [(''P'', ''X'', Box 0 0 10 10), (''Q'', ''X'', Box 50 50 51 51)]"

definition fs_twice :: "box fs" where
  "fs_twice = [shp_2000 \<mapsto> Shapefile raw_A, shp_1980 \<mapsto> Shapefile raw_twice]"

section \<open>Properties of the overlay engine\<close>

lemmas label_simps = str_nat.simps digit_char_def pref_col_def city_col_def gun_col_def code_col_def

lemma targets_loop_ok:
  "\<forall>t\<in>set ts. \<exists>x. process_pair lib sy ty scols tcols s t = Inr x \<Longrightarrow>
   targets_loop lib sy ty scols tcols s ts acc =
     Inr (acc @ concat (map (pair_records lib sy ty scols tcols s) ts))"
  by (induction ts arbitrary: acc) (auto simp: pair_records_def split: option.splits)

lemma targets_loop_Inl:
  "targets_loop lib sy ty scols tcols s ts acc = Inl e \<Longrightarrow>
     \<exists>t\<in>set ts. process_pair lib sy ty scols tcols s t = Inl e"
  by (induction ts arbitrary: acc) (auto split: sum.splits option.splits)

lemma targets_loop_Inr:
  "targets_loop lib sy ty scols tcols s ts acc = Inr out \<Longrightarrow>
     \<forall>t\<in>set ts. \<exists>x. process_pair lib sy ty scols tcols s t = Inr x"
  by (induction ts arbitrary: acc) (auto split: sum.splits option.splits)

lemma sources_loop_ok:
  "\<forall>s\<in>set ss. \<forall>t\<in>set (possible_matches lib tgt s).
      \<exists>x. process_pair lib sy ty scols (columns tgt) s t = Inr x \<Longrightarrow>
   sources_loop lib sy ty scols tgt ss acc =
     Inr (acc @ concat (map (\<lambda>s. concat (map (pair_records lib sy ty scols (columns tgt) s)
            (possible_matches lib tgt s))) ss))"
  by (induction ss arbitrary: acc) (simp_all add: targets_loop_ok)

lemma sources_loop_Inl:
  "sources_loop lib sy ty scols tgt ss acc = Inl e \<Longrightarrow>
     \<exists>s\<in>set ss. \<exists>t\<in>set (possible_matches lib tgt s).
        process_pair lib sy ty scols (columns tgt) s t = Inl e"
  by (induction ss arbitrary: acc) (auto split: sum.splits dest: targets_loop_Inl)

lemma sources_loop_Inr:
  "sources_loop lib sy ty scols tgt ss acc = Inr out \<Longrightarrow>
     \<forall>s\<in>set ss. \<forall>t\<in>set (possible_matches lib tgt s).
        \<exists>x. process_pair lib sy ty scols (columns tgt) s t = Inr x"
  by (induction ss arbitrary: acc) (auto split: sum.splits dest: targets_loop_Inr)

lemma overlay_records:
  assumes "calculate_intersections lib source_gdf target_gdf sy ty = Inr recs"
  shows "recs = concat (map (\<lambda>s. concat (map (pair_records lib sy ty (columns source_gdf) (columns target_gdf) s)
            (possible_matches lib target_gdf s))) (rows source_gdf))"
  using assms sources_loop_ok [OF sources_loop_Inr, of lib sy ty "columns source_gdf" target_gdf "rows source_gdf" "[]" recs "[]"]
  by (simp add: calculate_intersections_def)

lemma overlay_record_origin:
  assumes "calculate_intersections lib source_gdf target_gdf sy ty = Inr recs" and "r \<in> set recs"
  shows "\<exists>s\<in>set (rows source_gdf). \<exists>t\<in>set (rows target_gdf).
           process_pair lib sy ty (columns source_gdf) (columns target_gdf) s t = Inr (Some r)"
proof -
  from overlay_records [OF assms(1)] assms(2)
  obtain s t where "s \<in> set (rows source_gdf)" "t \<in> set (possible_matches lib target_gdf s)"
    "r \<in> set (pair_records lib sy ty (columns source_gdf) (columns target_gdf) s t)"
    by auto
  moreover from this have "process_pair lib sy ty (columns source_gdf) (columns target_gdf) s t = Inr (Some r)"
    by (auto simp: pair_records_def split: sum.splits option.splits)
  ultimately show ?thesis by (auto simp: possible_matches_def)
qed

lemma process_pair_Some:
  assumes "process_pair lib sy ty scols tcols s t = Inr (Some r)"
  shows "\<exists>g. intersects lib (geometry s) (geometry t) = Inr True \<and>
             intersection lib (geometry s) (geometry t) = Inr g \<and>
             \<not> is_empty lib g \<and> \<not> fle (area lib g) area_floor \<and>
             r = make_record sy ty scols s tcols t (area lib g) g"
  using assms by (auto simp: process_pair_def Let_def split: sum.splits if_splits)

lemma process_pair_Inl:
  assumes "process_pair lib sy ty scols tcols s t = Inl e"
  shows "\<exists>m. e = LibraryError m \<and>
     (intersects lib (geometry s) (geometry t) = Inl m \<or>
      intersection lib (geometry s) (geometry t) = Inl m)"
  using assms by (auto simp: process_pair_def Let_def split: sum.splits if_splits)

text \<open>
  C4. For one source row and one target row the loop body yields no record when the
  predicate \<^verbatim>\<open>intersects\<close> is false, when the intersection is empty, and when its
  area is at most \<^verbatim>\<open>1e-10\<close> (area 0 for two polygons that share only an edge).
  Every record that \<^verbatim>\<open>calculate_intersections\<close> returns comes from a pair of rows
  of the two layers that intersect in a non-empty geometry with an area above the floor.
\<close>

theorem overlay_skips_negligible_pairs:
  "(intersects lib (geometry s) (geometry t) = Inr False \<longrightarrow>
      process_pair lib sy ty scols tcols s t = Inr None) \<and>
   (intersects lib (geometry s) (geometry t) = Inr True \<and>
    intersection lib (geometry s) (geometry t) = Inr g \<and> is_empty lib g \<longrightarrow>
      process_pair lib sy ty scols tcols s t = Inr None) \<and>
   (intersects lib (geometry s) (geometry t) = Inr True \<and>
    intersection lib (geometry s) (geometry t) = Inr g \<and>
    area lib g = Finite a \<and> a \<le> 1 / 10 ^ 10 \<longrightarrow>
      process_pair lib sy ty scols tcols s t = Inr None) \<and>
   (calculate_intersections lib source_gdf target_gdf sy ty = Inr recs \<and> r \<in> set recs \<longrightarrow>
      (\<exists>s'\<in>set (rows source_gdf). \<exists>t'\<in>set (rows target_gdf). \<exists>g'.
          intersects lib (geometry s') (geometry t') = Inr True \<and>
          intersection lib (geometry s') (geometry t') = Inr g' \<and>
          \<not> is_empty lib g' \<and> \<not> fle (area lib g') area_floor \<and>
          r = make_record sy ty (columns source_gdf) s' (columns target_gdf) t' (area lib g') g'))"
proof (intro conjI impI)
  assume "calculate_intersections lib source_gdf target_gdf sy ty = Inr recs \<and> r \<in> set recs"
  then obtain s' t' where st: "s' \<in> set (rows source_gdf)" "t' \<in> set (rows target_gdf)"
    "process_pair lib sy ty (columns source_gdf) (columns target_gdf) s' t' = Inr (Some r)"
    using overlay_record_origin by blast
  from process_pair_Some [OF st(3)] st(1,2)
  show "\<exists>s'\<in>set (rows source_gdf). \<exists>t'\<in>set (rows target_gdf). \<exists>g'.
          intersects lib (geometry s') (geometry t') = Inr True \<and>
          intersection lib (geometry s') (geometry t') = Inr g' \<and>
          \<not> is_empty lib g' \<and> \<not> fle (area lib g') area_floor \<and>
          r = make_record sy ty (columns source_gdf) s' (columns target_gdf) t' (area lib g') g'"
    by blast
qed (simp_all add: process_pair_def area_floor_def)

lemma overlay_A_BD:
  "calculate_intersections box_geos source_A target_BD 2000 1980 =
     Inr [make_record 2000 1980 (columns source_A) (feat ''P'' ''A'' (Box 0 0 10 10))
            (columns target_BD) (feat ''P'' ''B'' (Box 0 0 5 10)) (Finite 50) (Box 0 0 5 10)]"
  by (simp add: calculate_intersections_def source_A_def target_BD_def rename_columns_def layer_def
      possible_matches_def process_pair_def box_geos_def area_floor_def feat_def)

theorem overlay_skips_negligible_pairs_witness:
  "process_pair box_geos 2000 1980 (columns source_A) (columns target_far)
      (feat ''P'' ''A'' (Box 0 0 10 10)) (feat ''P'' ''Z'' (Box 20 0 30 10)) = Inr None \<and>
   process_pair lenient_geos 2000 1980 (columns source_A) (columns target_far)
      (feat ''P'' ''A'' (Box 0 0 10 10)) (feat ''P'' ''Z'' (Box 20 0 30 10)) = Inr None \<and>
   process_pair box_geos 2000 1980 (columns source_A) (columns target_BD)
      (feat ''P'' ''A'' (Box 0 0 10 10)) (feat ''P'' ''D'' (Box 10 0 20 10)) = Inr None \<and>
   (\<exists>s'\<in>set (rows source_A). \<exists>t'\<in>set (rows target_BD). \<exists>g'.
      intersects box_geos (geometry s') (geometry t') = Inr True \<and>
      intersection box_geos (geometry s') (geometry t') = Inr g' \<and>
      \<not> is_empty box_geos g' \<and> \<not> fle (area box_geos g') area_floor \<and>
      make_record 2000 1980 (columns source_A) (feat ''P'' ''A'' (Box 0 0 10 10))
            (columns target_BD) (feat ''P'' ''B'' (Box 0 0 5 10)) (Finite 50) (Box 0 0 5 10) =
      make_record 2000 1980 (columns source_A) s' (columns target_BD) t' (area box_geos g') g')"
proof (intro conjI)
  show "process_pair box_geos 2000 1980 (columns source_A) (columns target_far)
      (feat ''P'' ''A'' (Box 0 0 10 10)) (feat ''P'' ''Z'' (Box 20 0 30 10)) = Inr None"
    using overlay_skips_negligible_pairs [of box_geos "feat ''P'' ''A'' (Box 0 0 10 10)"
        "feat ''P'' ''Z'' (Box 20 0 30 10)" 2000 1980 "columns source_A" "columns target_far"]
    by (simp add: box_geos_def feat_def)
  show "process_pair lenient_geos 2000 1980 (columns source_A) (columns target_far)
      (feat ''P'' ''A'' (Box 0 0 10 10)) (feat ''P'' ''Z'' (Box 20 0 30 10)) = Inr None"
    using overlay_skips_negligible_pairs [of lenient_geos "feat ''P'' ''A'' (Box 0 0 10 10)"
        "feat ''P'' ''Z'' (Box 20 0 30 10)" 2000 1980 "columns source_A" "columns target_far" EmptyBox]
    by (simp add: lenient_geos_def box_geos_def feat_def)
  show "process_pair box_geos 2000 1980 (columns source_A) (columns target_BD)
      (feat ''P'' ''A'' (Box 0 0 10 10)) (feat ''P'' ''D'' (Box 10 0 20 10)) = Inr None"
    using overlay_skips_negligible_pairs [of box_geos "feat ''P'' ''A'' (Box 0 0 10 10)"
        "feat ''P'' ''D'' (Box 10 0 20 10)" 2000 1980 "columns source_A" "columns target_BD"
        "Box 10 0 10 10" 0]
    by (simp add: box_geos_def feat_def)
  show "\<exists>s'\<in>set (rows source_A). \<exists>t'\<in>set (rows target_BD). \<exists>g'.
      intersects box_geos (geometry s') (geometry t') = Inr True \<and>
      intersection box_geos (geometry s') (geometry t') = Inr g' \<and>
      \<not> is_empty box_geos g' \<and> \<not> fle (area box_geos g') area_floor \<and>
      make_record 2000 1980 (columns source_A) (feat ''P'' ''A'' (Box 0 0 10 10))
            (columns target_BD) (feat ''P'' ''B'' (Box 0 0 5 10)) (Finite 50) (Box 0 0 5 10) =
      make_record 2000 1980 (columns source_A) s' (columns target_BD) t' (area box_geos g') g'"
    using overlay_skips_negligible_pairs [of box_geos _ _ 2000 1980 _ _ _ _ source_A target_BD
        "[make_record 2000 1980 (columns source_A) (feat ''P'' ''A'' (Box 0 0 10 10))
            (columns target_BD) (feat ''P'' ''B'' (Box 0 0 5 10)) (Finite 50) (Box 0 0 5 10)]"
        "make_record 2000 1980 (columns source_A) (feat ''P'' ''A'' (Box 0 0 10 10))
            (columns target_BD) (feat ''P'' ''B'' (Box 0 0 5 10)) (Finite 50) (Box 0 0 5 10)"]
      overlay_A_BD
    by simp
qed

text \<open>
  C6, as the code has it. When the library raises on a pair that the loops visit, the
  call of \<^verbatim>\<open>calculate_intersections\<close> ends in an error and returns no records. The
  \<^verbatim>\<open>except\<close> clause prints and raises the same exception again, so the error is the
  library's own exception, raised on a visited pair, and never an \<^verbatim>\<open>OverlayError\<close>
  around it. When every visited pair yields no record, the result is the empty list,
  not an error.
\<close>

theorem overlay_error_or_empty:
  "(s \<in> set (rows source_gdf) \<and> t \<in> set (possible_matches lib target_gdf s) \<and>
    (intersects lib (geometry s) (geometry t) = Inl m \<or>
     intersects lib (geometry s) (geometry t) = Inr True \<and>
     intersection lib (geometry s) (geometry t) = Inl m) \<longrightarrow>
      (\<exists>m'. calculate_intersections lib source_gdf target_gdf sy ty = Inl (LibraryError m'))) \<and>
   (calculate_intersections lib source_gdf target_gdf sy ty = Inl e \<longrightarrow>
      (\<exists>s'\<in>set (rows source_gdf). \<exists>t'\<in>set (possible_matches lib target_gdf s'). \<exists>m'.
          e = LibraryError m' \<and>
          (intersects lib (geometry s') (geometry t') = Inl m' \<or>
           intersection lib (geometry s') (geometry t') = Inl m'))) \<and>
   (\<forall>c. calculate_intersections lib source_gdf target_gdf sy ty \<noteq> Inl (OverlayError c)) \<and>
   ((\<forall>s'\<in>set (rows source_gdf). \<forall>t'\<in>set (possible_matches lib target_gdf s').
        process_pair lib sy ty (columns source_gdf) (columns target_gdf) s' t' = Inr None) \<longrightarrow>
      calculate_intersections lib source_gdf target_gdf sy ty = Inr [])"
proof (intro conjI impI allI)
  fix c
  show "calculate_intersections lib source_gdf target_gdf sy ty \<noteq> Inl (OverlayError c)"
  proof
    assume "calculate_intersections lib source_gdf target_gdf sy ty = Inl (OverlayError c)"
    then obtain s' t' where
      "process_pair lib sy ty (columns source_gdf) (columns target_gdf) s' t' = Inl (OverlayError c)"
      using sources_loop_Inl unfolding calculate_intersections_def by blast
    from process_pair_Inl [OF this] show False by auto
  qed
next
  assume a: "s \<in> set (rows source_gdf) \<and> t \<in> set (possible_matches lib target_gdf s) \<and>
    (intersects lib (geometry s) (geometry t) = Inl m \<or>
     intersects lib (geometry s) (geometry t) = Inr True \<and>
     intersection lib (geometry s) (geometry t) = Inl m)"
  then have p: "process_pair lib sy ty (columns source_gdf) (columns target_gdf) s t = Inl (LibraryError m)"
    by (auto simp: process_pair_def)
  show "\<exists>m'. calculate_intersections lib source_gdf target_gdf sy ty = Inl (LibraryError m')"
  proof (cases "calculate_intersections lib source_gdf target_gdf sy ty")
    case (Inl e')
    then obtain s' t' where "process_pair lib sy ty (columns source_gdf) (columns target_gdf) s' t' = Inl e'"
      using sources_loop_Inl unfolding calculate_intersections_def by blast
    from process_pair_Inl [OF this] Inl show ?thesis by blast
  next
    case (Inr out)
    then have "\<exists>x. process_pair lib sy ty (columns source_gdf) (columns target_gdf) s t = Inr x"
      using sources_loop_Inr a unfolding calculate_intersections_def by blast
    with p show ?thesis by simp
  qed
next
  assume "calculate_intersections lib source_gdf target_gdf sy ty = Inl e"
  then obtain s' t' where st: "s' \<in> set (rows source_gdf)" "t' \<in> set (possible_matches lib target_gdf s')"
    "process_pair lib sy ty (columns source_gdf) (columns target_gdf) s' t' = Inl e"
    using sources_loop_Inl unfolding calculate_intersections_def by blast
  from process_pair_Inl [OF st(3)] st(1,2)
  show "\<exists>s'\<in>set (rows source_gdf). \<exists>t'\<in>set (possible_matches lib target_gdf s'). \<exists>m'.
          e = LibraryError m' \<and>
          (intersects lib (geometry s') (geometry t') = Inl m' \<or>
           intersection lib (geometry s') (geometry t') = Inl m')"
    by blast
next
  assume a: "\<forall>s'\<in>set (rows source_gdf). \<forall>t'\<in>set (possible_matches lib target_gdf s').
        process_pair lib sy ty (columns source_gdf) (columns target_gdf) s' t' = Inr None"
  then have "\<forall>s'\<in>set (rows source_gdf). \<forall>t'\<in>set (possible_matches lib target_gdf s').
        \<exists>x. process_pair lib sy ty (columns source_gdf) (columns target_gdf) s' t' = Inr x"
    by simp
  from sources_loop_ok [OF this, of "[]"] a
  show "calculate_intersections lib source_gdf target_gdf sy ty = Inr []"
    by (simp add: calculate_intersections_def pair_records_def)
qed

theorem overlay_error_or_empty_witness:
  "(\<exists>m'. calculate_intersections faulty_geos source_A target_BD 2000 1980 = Inl (LibraryError m')) \<and>
   (\<exists>s'\<in>set (rows source_A). \<exists>t'\<in>set (possible_matches faulty_geos target_BD s'). \<exists>m'.
          LibraryError ''TopologyException'' = LibraryError m' \<and>
          (intersects faulty_geos (geometry s') (geometry t') = Inl m' \<or>
           intersection faulty_geos (geometry s') (geometry t') = Inl m')) \<and>
   calculate_intersections box_geos source_A target_D 2000 1980 = Inr []"
proof (intro conjI)
  show "\<exists>m'. calculate_intersections faulty_geos source_A target_BD 2000 1980 = Inl (LibraryError m')"
    using overlay_error_or_empty [of "feat ''P'' ''A'' (Box 0 0 10 10)" source_A
        "feat ''P'' ''B'' (Box 0 0 5 10)" faulty_geos target_BD "''TopologyException''" 2000 1980]
    by (simp add: source_A_def target_BD_def rename_columns_def layer_def feat_def
        possible_matches_def faulty_geos_def box_geos_def)
  have "calculate_intersections faulty_geos source_A target_BD 2000 1980 =
      Inl (LibraryError ''TopologyException'')"
    by (simp add: calculate_intersections_def source_A_def target_BD_def rename_columns_def layer_def
      possible_matches_def process_pair_def faulty_geos_def box_geos_def)
  then show "\<exists>s'\<in>set (rows source_A). \<exists>t'\<in>set (possible_matches faulty_geos target_BD s'). \<exists>m'.
          LibraryError ''TopologyException'' = LibraryError m' \<and>
          (intersects faulty_geos (geometry s') (geometry t') = Inl m' \<or>
           intersection faulty_geos (geometry s') (geometry t') = Inl m')"
    using overlay_error_or_empty [of _ source_A _ faulty_geos target_BD _ 2000 1980
        "LibraryError ''TopologyException''"]
    by simp
  show "calculate_intersections box_geos source_A target_D 2000 1980 = Inr []"
    using overlay_error_or_empty [of _ source_A _ box_geos target_D _ 2000 1980]
    by (simp add: source_A_def target_D_def rename_columns_def layer_def
        possible_matches_def process_pair_def box_geos_def area_floor_def)
qed

text \<open>
  The claim as the specification words it fails where the library raises: the error
  that leaves the overlay is the raw exception, not a wrapper around it.
\<close>

theorem overlay_error_is_not_wrapped:
  "calculate_intersections faulty_geos source_A target_BD 2000 1980 =
     Inl (LibraryError ''TopologyException'') \<and>
   \<not> (\<exists>c. calculate_intersections faulty_geos source_A target_BD 2000 1980 =
          Inl (OverlayError c))"
proof -
  have "calculate_intersections faulty_geos source_A target_BD 2000 1980 =
      Inl (LibraryError ''TopologyException'')"
    by (simp add: calculate_intersections_def source_A_def target_BD_def rename_columns_def layer_def
      possible_matches_def process_pair_def faulty_geos_def box_geos_def)
  then show ?thesis by simp
qed

section \<open>Properties of the weight calculator\<close>

lemma repair_all_finite: "filter (\<lambda>w. \<not> isfinite w) ws = [] \<Longrightarrow> map repair ws = ws"
  by (induction ws) (auto simp: repair_def split: if_splits)

lemma isfinite_repair: "isfinite (repair w)"
  by (simp add: repair_def)

lemma column_of_Inr: "column_of recs name = Inr cs \<Longrightarrow> cs = map (\<lambda>r. ids r name) recs"
  by (auto simp: column_of_def split: if_splits)

lemma quotients_eq:
  "quotients recs (map_areas ta (map (\<lambda>r. ids r (city_col ty)) recs)) = map (weight_of ta ty) recs"
  by (induction recs) (simp_all add: quotients_def map_areas_def weight_of_def)

lemma zip_map_same: "map (\<lambda>(x, y). f x y) (zip xs (map g xs)) = map (\<lambda>x. f x (g x)) xs"
  by (induction xs) simp_all

lemma calculate_weights_Inr:
  assumes "calculate_weights lib recs source_gdf target_gdf sy ty = Inr (crosswalk, warns)"
  shows "\<exists>source_areas target_areas.
      area_lookup lib (columns source_gdf) (city_col sy) (rows source_gdf) Map.empty = Inr source_areas \<and>
      area_lookup lib (columns target_gdf) (city_col ty) (rows target_gdf) Map.empty = Inr target_areas \<and>
      crosswalk = map (\<lambda>r. \<lparr> xids = ids r, weight = repair (weight_of target_areas ty r) \<rparr>) recs \<and>
      warns =
        warn MissingSource (filter isna (map (\<lambda>r. lookup_area source_areas (ids r (city_col sy))) recs)) @
        warn MissingTarget (filter isna (map (\<lambda>r. lookup_area target_areas (ids r (city_col ty))) recs)) @
        warn InvalidWeights (filter (\<lambda>w. \<not> isfinite w) (map (weight_of target_areas ty) recs))"
proof -
  from assms obtain sa ta sc tc where
    sa: "area_lookup lib (columns source_gdf) (city_col sy) (rows source_gdf) Map.empty = Inr sa" and
    ta: "area_lookup lib (columns target_gdf) (city_col ty) (rows target_gdf) Map.empty = Inr ta" and
    sc: "column_of recs (city_col sy) = Inr sc" and
    tc: "column_of recs (city_col ty) = Inr tc"
    by (auto simp: calculate_weights_def split: sum.splits)
  note sc' = column_of_Inr [OF sc] and tc' = column_of_Inr [OF tc]
  let ?q = "map (weight_of ta ty) recs"
  have q: "quotients recs (map_areas ta tc) = ?q"
    unfolding tc' by (rule quotients_eq)
  have rep: "(if filter (\<lambda>w. \<not> isfinite w) ?q \<noteq> [] then map repair ?q else ?q) = map repair ?q"
    using repair_all_finite [of ?q] by auto
  have "calculate_weights lib recs source_gdf target_gdf sy ty =
      Inr (map (\<lambda>(r, w). \<lparr> xids = ids r, weight = w \<rparr>)
             (zip recs (if filter (\<lambda>w. \<not> isfinite w) ?q \<noteq> [] then map repair ?q else ?q)),
        warn MissingSource (filter isna (map_areas sa sc)) @
        warn MissingTarget (filter isna (map_areas ta tc)) @
        warn InvalidWeights (filter (\<lambda>w. \<not> isfinite w) ?q))"
    by (simp add: calculate_weights_def sa ta sc tc Let_def q)
  with assms have cw: "crosswalk = map (\<lambda>(r, w). \<lparr> xids = ids r, weight = w \<rparr>) (zip recs (map repair ?q))"
    and w: "warns =
        warn MissingSource (filter isna (map_areas sa sc)) @
        warn MissingTarget (filter isna (map_areas ta tc)) @
        warn InvalidWeights (filter (\<lambda>w. \<not> isfinite w) ?q)"
    unfolding rep by simp_all
  have cw': "crosswalk = map (\<lambda>r. \<lparr> xids = ids r, weight = repair (weight_of ta ty r) \<rparr>) recs"
    unfolding cw by (simp add: zip_map_same)
  have w': "warns =
        warn MissingSource (filter isna (map (\<lambda>r. lookup_area sa (ids r (city_col sy))) recs)) @
        warn MissingTarget (filter isna (map (\<lambda>r. lookup_area ta (ids r (city_col ty))) recs)) @
        warn InvalidWeights (filter (\<lambda>w. \<not> isfinite w) ?q)"
    unfolding w sc' tc' map_areas_def map_map comp_def ..
  from sa ta cw' w' show ?thesis by blast
qed

lemma calculate_weights_ok:
  assumes sa: "area_lookup lib (columns source_gdf) (city_col sy) (rows source_gdf) Map.empty = Inr sa"
    and ta: "area_lookup lib (columns target_gdf) (city_col ty) (rows target_gdf) Map.empty = Inr ta"
    and sc: "list_ex (\<lambda>r. ids r (city_col sy) \<noteq> None) recs"
    and tc: "list_ex (\<lambda>r. ids r (city_col ty) \<noteq> None) recs"
  shows "\<exists>warns. calculate_weights lib recs source_gdf target_gdf sy ty =
      Inr (map (\<lambda>r. \<lparr> xids = ids r, weight = repair (weight_of ta ty r) \<rparr>) recs, warns)"
proof -
  have "\<exists>crosswalk warns. calculate_weights lib recs source_gdf target_gdf sy ty = Inr (crosswalk, warns)"
    using sa ta sc tc by (simp add: calculate_weights_def column_of_def Let_def)
  then obtain crosswalk warns where
    r: "calculate_weights lib recs source_gdf target_gdf sy ty = Inr (crosswalk, warns)"
    by blast
  from calculate_weights_Inr [OF r] ta r show ?thesis by auto
qed

lemma city_not_gun [simp]: "city_col y \<noteq> gun_col z" "gun_col z \<noteq> city_col y"
  by (simp_all add: city_col_def gun_col_def)

lemma city_not_code [simp]: "city_col y \<noteq> code_col z" "code_col z \<noteq> city_col y"
  by (simp_all add: city_col_def code_col_def)

lemma city_not_pref [simp]: "city_col y \<noteq> pref_col z" "pref_col z \<noteq> city_col y"
  by (simp_all add: city_col_def pref_col_def)

lemma ids_target_city:
  "ids (make_record sy ty scols s tcols t a g) (city_col ty) = Some (getattr tcols t (city_col ty))"
  by (simp add: make_record_def)

lemma ids_source_city:
  "city_col sy \<noteq> city_col ty \<Longrightarrow>
   ids (make_record sy ty scols s tcols t a g) (city_col sy) = Some (getattr scols s (city_col sy))"
  by (simp add: make_record_def)


text \<open>The loop that fills an area lookup.\<close>

lemma area_lookup_cells:
  "area_lookup lib cols key rs m = Inr m' \<Longrightarrow> r \<in> set rs \<Longrightarrow> \<exists>c. cell cols r key = Some c"
  by (induction rs arbitrary: m) (auto split: option.splits)


lemma area_lookup_value:
  "area_lookup lib cols key rs m = Inr m' \<Longrightarrow> m' k = Some a \<Longrightarrow>
     m k = Some a \<or> (\<exists>r\<in>set rs. cell cols r key = Some k \<and> a = area lib (geometry r))"
proof (induction rs arbitrary: m)
  case Nil
  then show ?case by simp
next
  case (Cons r rs)
  then obtain c where c: "cell cols r key = Some c"
    and rest: "area_lookup lib cols key rs (m(c \<mapsto> area lib (geometry r))) = Inr m'"
    by (auto split: option.splits)
  from Cons.IH [OF rest Cons.prems(2)] c show ?case
    by (auto split: if_splits)
qed

lemma area_lookup_keeps:
  "area_lookup lib cols key rs m = Inr m' \<Longrightarrow> m k = Some a \<Longrightarrow>
     \<forall>r\<in>set rs. cell cols r key \<noteq> Some k \<Longrightarrow> m' k = Some a"
  by (induction rs arbitrary: m) (auto split: option.splits)

lemma area_lookup_found:
  "area_lookup lib cols key rs m = Inr m' \<Longrightarrow> r \<in> set rs \<Longrightarrow> cell cols r key = Some k \<Longrightarrow>
     \<exists>r'\<in>set rs. cell cols r' key = Some k \<and> m' k = Some (area lib (geometry r'))"
proof (induction rs arbitrary: m r)
  case Nil
  then show ?case by simp
next
  case (Cons x xs)
  then obtain c where c: "cell cols x key = Some c"
    and rest: "area_lookup lib cols key xs (m(c \<mapsto> area lib (geometry x))) = Inr m'"
    by (auto split: option.splits)
  show ?case
  proof (cases "\<exists>r'\<in>set xs. cell cols r' key = Some k")
    case True
    then obtain r' where "r' \<in> set xs" "cell cols r' key = Some k" by blast
    from Cons.IH [OF rest this] show ?thesis by auto
  next
    case False
    with Cons.prems have xk: "x = r" "c = k" using c by auto
    from False have "\<forall>r\<in>set xs. cell cols r key \<noteq> Some k" by blast
    from area_lookup_keeps [OF rest _ this, of "area lib (geometry x)"] xk c
    show ?thesis by auto
  qed
qed

lemma area_lookup_distinct:
  "area_lookup lib cols key rs m = Inr m' \<Longrightarrow> r \<in> set rs \<Longrightarrow> cell cols r key = Some k \<Longrightarrow>
   distinct (map (\<lambda>r. cell cols r key) rs) \<Longrightarrow> m' k = Some (area lib (geometry r))"
proof (induction rs arbitrary: m)
  case Nil
  then show ?case by simp
next
  case (Cons x xs)
  then obtain c where c: "cell cols x key = Some c"
    and rest: "area_lookup lib cols key xs (m(c \<mapsto> area lib (geometry x))) = Inr m'"
    by (auto split: option.splits)
  show ?case
  proof (cases "r \<in> set xs")
    case True
    from Cons.IH [OF rest True Cons.prems(3)] Cons.prems(4) show ?thesis by simp
  next
    case False
    with Cons.prems have xk: "x = r" "c = k" using c by auto
    from Cons.prems(4) xk c have "\<forall>r\<in>set xs. cell cols r key \<noteq> Some k"
      by (auto simp: image_iff)
    from area_lookup_keeps [OF rest _ this, of "area lib (geometry x)"] xk
    show ?thesis by simp
  qed
qed

lemma make_record_area [simp]: "intersection_area (make_record sy ty scols s tcols t a g) = a"
  by (simp add: make_record_def)

text \<open>
  C1. A record of the overlay comes from a source row and a target row. Its weight is
  the area of the intersection divided by the value that the lookup of the target
  layer holds for the city of the target row (0 in place of a quotient that is not
  finite). That value is the area of a whole polygon of the target layer with that
  city: the last such row, which is the target row itself when no two rows of the
  layer have the same city. The source area is looked up in the same way in the lookup
  built from the source layer.
\<close>

theorem weight_is_area_ratio:
  assumes ov: "calculate_intersections lib source_gdf target_gdf sy ty = Inr recs"
      and cw: "calculate_weights lib recs source_gdf target_gdf sy ty = Inr (crosswalk, warns)"
      and i: "i < length recs"
  shows "\<exists>source_areas target_areas s t g c.
      area_lookup lib (columns source_gdf) (city_col sy) (rows source_gdf) Map.empty = Inr source_areas \<and>
      area_lookup lib (columns target_gdf) (city_col ty) (rows target_gdf) Map.empty = Inr target_areas \<and>
      s \<in> set (rows source_gdf) \<and> t \<in> set (rows target_gdf) \<and>
      intersection lib (geometry s) (geometry t) = Inr g \<and>
      recs ! i = make_record sy ty (columns source_gdf) s (columns target_gdf) t (area lib g) g \<and>
      cell (columns target_gdf) t (city_col ty) = Some c \<and>
      ids (recs ! i) (city_col ty) = Some c \<and>
      length crosswalk = length recs \<and>
      xids (crosswalk ! i) = ids (recs ! i) \<and>
      weight (crosswalk ! i) =
        (if isfinite (fdiv (area lib g) (lookup_area target_areas (Some c)))
         then fdiv (area lib g) (lookup_area target_areas (Some c)) else Finite 0) \<and>
      (\<exists>t'\<in>set (rows target_gdf). cell (columns target_gdf) t' (city_col ty) = Some c \<and>
          lookup_area target_areas (Some c) = area lib (geometry t')) \<and>
      (distinct (map (\<lambda>r. cell (columns target_gdf) r (city_col ty)) (rows target_gdf)) \<longrightarrow>
          lookup_area target_areas (Some c) = area lib (geometry t)) \<and>
      (city_col sy \<noteq> city_col ty \<longrightarrow>
         (\<exists>s'\<in>set (rows source_gdf).
             cell (columns source_gdf) s' (city_col sy) = cell (columns source_gdf) s (city_col sy) \<and>
             ids (recs ! i) (city_col sy) = cell (columns source_gdf) s (city_col sy) \<and>
             lookup_area source_areas (ids (recs ! i) (city_col sy)) = area lib (geometry s')))"
proof -
  from calculate_weights_Inr [OF cw] obtain sa ta where
    sa: "area_lookup lib (columns source_gdf) (city_col sy) (rows source_gdf) Map.empty = Inr sa" and
    ta: "area_lookup lib (columns target_gdf) (city_col ty) (rows target_gdf) Map.empty = Inr ta" and
    cwe: "crosswalk = map (\<lambda>r. \<lparr> xids = ids r, weight = repair (weight_of ta ty r) \<rparr>) recs"
    by blast
  from i have "recs ! i \<in> set recs" by simp
  from overlay_record_origin [OF ov this] obtain s t where
    s: "s \<in> set (rows source_gdf)" and t: "t \<in> set (rows target_gdf)" and
    pp: "process_pair lib sy ty (columns source_gdf) (columns target_gdf) s t = Inr (Some (recs ! i))"
    by blast
  from process_pair_Some [OF pp] obtain g where
    g: "intersection lib (geometry s) (geometry t) = Inr g" and
    r: "recs ! i = make_record sy ty (columns source_gdf) s (columns target_gdf) t (area lib g) g"
    by blast
  from area_lookup_cells [OF ta t] obtain c where c: "cell (columns target_gdf) t (city_col ty) = Some c"
    by blast
  from area_lookup_cells [OF sa s] obtain d where d: "cell (columns source_gdf) s (city_col sy) = Some d"
    by blast
  have idc: "ids (recs ! i) (city_col ty) = Some c"
    unfolding r by (simp add: ids_target_city getattr_def c)
  have w: "weight (crosswalk ! i) =
        (if isfinite (fdiv (area lib g) (lookup_area ta (Some c)))
         then fdiv (area lib g) (lookup_area ta (Some c)) else Finite 0)"
    using i idc by (simp add: cwe weight_of_def repair_def r)
  from area_lookup_found [OF ta t c] obtain t' where
    t': "t' \<in> set (rows target_gdf)" "cell (columns target_gdf) t' (city_col ty) = Some c"
      "ta c = Some (area lib (geometry t'))"
    by blast
  have own: "distinct (map (\<lambda>r. cell (columns target_gdf) r (city_col ty)) (rows target_gdf)) \<longrightarrow>
          lookup_area ta (Some c) = area lib (geometry t)"
    using area_lookup_distinct [OF ta t c] by (simp add: lookup_area_def)
  have src: "city_col sy \<noteq> city_col ty \<longrightarrow>
         (\<exists>s'\<in>set (rows source_gdf).
             cell (columns source_gdf) s' (city_col sy) = cell (columns source_gdf) s (city_col sy) \<and>
             ids (recs ! i) (city_col sy) = cell (columns source_gdf) s (city_col sy) \<and>
             lookup_area sa (ids (recs ! i) (city_col sy)) = area lib (geometry s'))"
  proof
    assume ne: "city_col sy \<noteq> city_col ty"
    have ids: "ids (recs ! i) (city_col sy) = Some d"
      unfolding r by (simp add: ids_source_city [OF ne] getattr_def d)
    from area_lookup_found [OF sa s d] obtain s' where
      "s' \<in> set (rows source_gdf)" "cell (columns source_gdf) s' (city_col sy) = Some d"
      "sa d = Some (area lib (geometry s'))"
      by blast
    then show "\<exists>s'\<in>set (rows source_gdf).
             cell (columns source_gdf) s' (city_col sy) = cell (columns source_gdf) s (city_col sy) \<and>
             ids (recs ! i) (city_col sy) = cell (columns source_gdf) s (city_col sy) \<and>
             lookup_area sa (ids (recs ! i) (city_col sy)) = area lib (geometry s')"
      using ids d by (auto simp: lookup_area_def)
  qed
  have len: "length crosswalk = length recs" and xi: "xids (crosswalk ! i) = ids (recs ! i)"
    using i by (simp_all add: cwe)
  have ex: "\<exists>t'\<in>set (rows target_gdf). cell (columns target_gdf) t' (city_col ty) = Some c \<and>
          lookup_area ta (Some c) = area lib (geometry t')"
    using t' by (auto simp: lookup_area_def)
  from sa ta s t g r c idc len xi w ex own src show ?thesis by blast
qed

lemmas fixture_simps = source_A_def target_E_def target_BD_def target_D_def target_E0_def target_far_def
  rename_columns_def rename_label_def layer_def feat_def

lemma overlay_A_E: "calculate_intersections box_geos source_A target_E 2000 1980 = Inr [rec_AE]"
  by (simp add: calculate_intersections_def fixture_simps rec_AE_def
      possible_matches_def process_pair_def box_geos_def area_floor_def)

lemma weights_A_E:
  "calculate_weights box_geos [rec_AE] source_A target_E 2000 1980 =
     Inr ([\<lparr> xids = ids rec_AE, weight = Finite (1 / 4) \<rparr>], [])"
  by (simp add: calculate_weights_def fixture_simps rec_AE_def make_record_def getattr_def cell_def
      label_simps column_of_def map_areas_def lookup_area_def quotients_def warn_def repair_def
      box_geos_def Let_def)

theorem weight_is_area_ratio_witness:
  "calculate_intersections box_geos source_A target_E 2000 1980 = Inr [rec_AE] \<and>
   calculate_weights box_geos [rec_AE] source_A target_E 2000 1980 =
     Inr ([\<lparr> xids = ids rec_AE, weight = Finite (1 / 4) \<rparr>], []) \<and>
   (\<exists>source_areas target_areas s t g c.
      area_lookup box_geos (columns source_A) (city_col 2000) (rows source_A) Map.empty = Inr source_areas \<and>
      area_lookup box_geos (columns target_E) (city_col 1980) (rows target_E) Map.empty = Inr target_areas \<and>
      s \<in> set (rows source_A) \<and> t \<in> set (rows target_E) \<and>
      intersection box_geos (geometry s) (geometry t) = Inr g \<and>
      [rec_AE] ! 0 = make_record 2000 1980 (columns source_A) s (columns target_E) t (area box_geos g) g \<and>
      cell (columns target_E) t (city_col 1980) = Some c \<and>
      ids ([rec_AE] ! 0) (city_col 1980) = Some c \<and>
      weight ([\<lparr> xids = ids rec_AE, weight = Finite (1 / 4) \<rparr>] ! 0) =
        (if isfinite (fdiv (area box_geos g) (lookup_area target_areas (Some c)))
         then fdiv (area box_geos g) (lookup_area target_areas (Some c)) else Finite 0) \<and>
      lookup_area target_areas (Some c) = area box_geos (geometry t))"
proof -
  have d: "distinct (map (\<lambda>r. cell (columns target_E) r (city_col 1980)) (rows target_E))"
    by (simp add: fixture_simps)
  from weight_is_area_ratio [OF overlay_A_E weights_A_E, of 0]
  obtain source_areas target_areas s t g c where
    "area_lookup box_geos (columns source_A) (city_col 2000) (rows source_A) Map.empty = Inr source_areas"
    "area_lookup box_geos (columns target_E) (city_col 1980) (rows target_E) Map.empty = Inr target_areas"
    "s \<in> set (rows source_A)" "t \<in> set (rows target_E)"
    "intersection box_geos (geometry s) (geometry t) = Inr g"
    "[rec_AE] ! 0 = make_record 2000 1980 (columns source_A) s (columns target_E) t (area box_geos g) g"
    "cell (columns target_E) t (city_col 1980) = Some c"
    "ids ([rec_AE] ! 0) (city_col 1980) = Some c"
    "weight ([\<lparr> xids = ids rec_AE, weight = Finite (1 / 4) \<rparr>] ! 0) =
        (if isfinite (fdiv (area box_geos g) (lookup_area target_areas (Some c)))
         then fdiv (area box_geos g) (lookup_area target_areas (Some c)) else Finite 0)"
    "distinct (map (\<lambda>r. cell (columns target_E) r (city_col 1980)) (rows target_E)) \<longrightarrow>
          lookup_area target_areas (Some c) = area box_geos (geometry t)"
    by blast
  with d have "\<exists>source_areas target_areas s t g c.
      area_lookup box_geos (columns source_A) (city_col 2000) (rows source_A) Map.empty = Inr source_areas \<and>
      area_lookup box_geos (columns target_E) (city_col 1980) (rows target_E) Map.empty = Inr target_areas \<and>
      s \<in> set (rows source_A) \<and> t \<in> set (rows target_E) \<and>
      intersection box_geos (geometry s) (geometry t) = Inr g \<and>
      [rec_AE] ! 0 = make_record 2000 1980 (columns source_A) s (columns target_E) t (area box_geos g) g \<and>
      cell (columns target_E) t (city_col 1980) = Some c \<and>
      ids ([rec_AE] ! 0) (city_col 1980) = Some c \<and>
      weight ([\<lparr> xids = ids rec_AE, weight = Finite (1 / 4) \<rparr>] ! 0) =
        (if isfinite (fdiv (area box_geos g) (lookup_area target_areas (Some c)))
         then fdiv (area box_geos g) (lookup_area target_areas (Some c)) else Finite 0) \<and>
      lookup_area target_areas (Some c) = area box_geos (geometry t)"
    by blast
  with overlay_A_E weights_A_E show ?thesis by blast
qed

lemma fdiv_zero_not_finite: "\<not> isfinite (fdiv a (Finite 0))"
  by (cases a) auto

lemma fdiv_nan_not_finite: "\<not> isfinite (fdiv a NaN)"
  by (cases a) auto

lemma flt_pos_not_zero: "flt (Finite 0) t \<Longrightarrow> \<not> fgt (Finite 0) t"
  by (cases t) (auto simp: fgt_def)

text \<open>
  C5. When the two lookups can be built and the records have the two city columns,
  \<^verbatim>\<open>calculate_weights\<close> returns: it keeps one row for every record, every weight is
  finite, and a row whose quotient is not finite (a target area of zero, or a target
  city that is no key of the lookup) has weight 0 and is counted in the warning on
  invalid weights. No such row passes the filter of a threshold above 0.
\<close>

theorem nonfinite_weight_is_zeroed:
  assumes sa: "area_lookup lib (columns source_gdf) (city_col sy) (rows source_gdf) Map.empty = Inr source_areas"
      and ta: "area_lookup lib (columns target_gdf) (city_col ty) (rows target_gdf) Map.empty = Inr target_areas"
      and sc: "list_ex (\<lambda>r. ids r (city_col sy) \<noteq> None) recs"
      and tc: "list_ex (\<lambda>r. ids r (city_col ty) \<noteq> None) recs"
  shows "\<exists>crosswalk warns.
      calculate_weights lib recs source_gdf target_gdf sy ty = Inr (crosswalk, warns) \<and>
      length crosswalk = length recs \<and>
      (\<forall>i<length recs.
          xids (crosswalk ! i) = ids (recs ! i) \<and> isfinite (weight (crosswalk ! i)) \<and>
          (\<not> isfinite (weight_of target_areas ty (recs ! i)) \<longrightarrow> weight (crosswalk ! i) = Finite 0) \<and>
          (lookup_area target_areas (ids (recs ! i) (city_col ty)) = Finite 0 \<longrightarrow>
             weight (crosswalk ! i) = Finite 0) \<and>
          ((\<forall>k. ids (recs ! i) (city_col ty) = Some k \<longrightarrow> target_areas k = None) \<longrightarrow>
             weight (crosswalk ! i) = Finite 0)) \<and>
      (filter (\<lambda>r. \<not> isfinite (weight_of target_areas ty r)) recs \<noteq> [] \<longrightarrow>
         InvalidWeights (length (filter (\<lambda>r. \<not> isfinite (weight_of target_areas ty r)) recs)) \<in> set warns) \<and>
      (\<forall>t. flt (Finite 0) t \<longrightarrow> (\<forall>x\<in>set (threshold_filter t crosswalk). weight x \<noteq> Finite 0))"
proof -
  from calculate_weights_ok [OF sa ta sc tc] obtain warns where
    cw: "calculate_weights lib recs source_gdf target_gdf sy ty =
      Inr (map (\<lambda>r. \<lparr> xids = ids r, weight = repair (weight_of target_areas ty r) \<rparr>) recs, warns)"
    by blast
  let ?cw = "map (\<lambda>r. \<lparr> xids = ids r, weight = repair (weight_of target_areas ty r) \<rparr>) recs"
  from calculate_weights_Inr [OF cw] sa ta
  have w: "\<exists>ws1 ws2. warns = ws1 @ ws2 @
        warn InvalidWeights (filter (\<lambda>w. \<not> isfinite w) (map (weight_of target_areas ty) recs))"
    by auto
  have len: "length (filter (\<lambda>w. \<not> isfinite w) (map (weight_of target_areas ty) recs)) =
      length (filter (\<lambda>r. \<not> isfinite (weight_of target_areas ty r)) recs)"
    by (simp add: filter_map comp_def)
  have inv: "filter (\<lambda>r. \<not> isfinite (weight_of target_areas ty r)) recs \<noteq> [] \<longrightarrow>
         InvalidWeights (length (filter (\<lambda>r. \<not> isfinite (weight_of target_areas ty r)) recs)) \<in> set warns"
    using w len by (auto simp: warn_def filter_map comp_def)
  have rows: "\<forall>i<length recs.
          xids (?cw ! i) = ids (recs ! i) \<and> isfinite (weight (?cw ! i)) \<and>
          (\<not> isfinite (weight_of target_areas ty (recs ! i)) \<longrightarrow> weight (?cw ! i) = Finite 0) \<and>
          (lookup_area target_areas (ids (recs ! i) (city_col ty)) = Finite 0 \<longrightarrow>
             weight (?cw ! i) = Finite 0) \<and>
          ((\<forall>k. ids (recs ! i) (city_col ty) = Some k \<longrightarrow> target_areas k = None) \<longrightarrow>
             weight (?cw ! i) = Finite 0)"
  proof (intro allI impI)
    fix i assume i: "i < length recs"
    have nf0: "lookup_area target_areas (ids (recs ! i) (city_col ty)) = Finite 0 \<Longrightarrow>
        \<not> isfinite (weight_of target_areas ty (recs ! i))"
      by (simp add: weight_of_def fdiv_zero_not_finite)
    have nfm: "\<forall>k. ids (recs ! i) (city_col ty) = Some k \<longrightarrow> target_areas k = None \<Longrightarrow>
        \<not> isfinite (weight_of target_areas ty (recs ! i))"
      by (cases "ids (recs ! i) (city_col ty)")
        (simp_all add: weight_of_def lookup_area_def fdiv_nan_not_finite)
    show "xids (?cw ! i) = ids (recs ! i) \<and> isfinite (weight (?cw ! i)) \<and>
          (\<not> isfinite (weight_of target_areas ty (recs ! i)) \<longrightarrow> weight (?cw ! i) = Finite 0) \<and>
          (lookup_area target_areas (ids (recs ! i) (city_col ty)) = Finite 0 \<longrightarrow>
             weight (?cw ! i) = Finite 0) \<and>
          ((\<forall>k. ids (recs ! i) (city_col ty) = Some k \<longrightarrow> target_areas k = None) \<longrightarrow>
             weight (?cw ! i) = Finite 0)"
      using i nf0 nfm by (auto simp: isfinite_repair repair_def)
  qed
  have flt: "\<forall>t. flt (Finite 0) t \<longrightarrow> (\<forall>x\<in>set (threshold_filter t ?cw). weight x \<noteq> Finite 0)"
    using flt_pos_not_zero by (auto simp: threshold_filter_def)
  from cw rows inv flt show ?thesis by (intro exI [of _ ?cw] exI [of _ warns]) simp
qed

lemma lookup_source_A:
  "area_lookup box_geos (columns source_A) (city_col 2000) (rows source_A) Map.empty =
     Inr [''A'' \<mapsto> Finite 100]"
  by (simp add: fixture_simps cell_def label_simps box_geos_def)

lemma lookup_target_D:
  "area_lookup box_geos (columns target_D) (city_col 1980) (rows target_D) Map.empty =
     Inr [''D'' \<mapsto> Finite 100]"
  by (simp add: fixture_simps cell_def label_simps box_geos_def)

lemma lookup_target_E0:
  "area_lookup box_geos (columns target_E0) (city_col 1980) (rows target_E0) Map.empty =
     Inr [''E'' \<mapsto> Finite 0]"
  by (simp add: fixture_simps cell_def label_simps box_geos_def)

lemma rec_AE_cities:
  "ids rec_AE (city_col 2000) = Some ''A''" "ids rec_AE (city_col 1980) = Some ''E''"
  by (simp_all add: rec_AE_def make_record_def fixture_simps getattr_def cell_def label_simps)

theorem nonfinite_weight_is_zeroed_witness:
  "(\<exists>crosswalk warns.
      calculate_weights box_geos [rec_AE] source_A target_D 2000 1980 = Inr (crosswalk, warns) \<and>
      length crosswalk = 1 \<and> weight (crosswalk ! 0) = Finite 0 \<and>
      InvalidWeights 1 \<in> set warns \<and>
      threshold_filter default_weight_threshold crosswalk = []) \<and>
   (\<exists>crosswalk warns.
      calculate_weights box_geos [rec_AE] source_A target_E0 2000 1980 = Inr (crosswalk, warns) \<and>
      length crosswalk = 1 \<and> weight (crosswalk ! 0) = Finite 0 \<and>
      InvalidWeights 1 \<in> set warns \<and>
      threshold_filter default_weight_threshold crosswalk = [])"
proof
  have pos: "flt (Finite 0) default_weight_threshold"
    by (simp add: default_weight_threshold_def)
  have ex: "list_ex (\<lambda>r. ids r (city_col 2000) \<noteq> None) [rec_AE]"
    "list_ex (\<lambda>r. ids r (city_col 1980) \<noteq> None) [rec_AE]"
    by (simp_all add: rec_AE_cities)
  have single: "length xs = 1 \<Longrightarrow> weight (xs ! 0) = Finite 0 \<Longrightarrow>
      \<forall>x\<in>set (threshold_filter t xs). weight x \<noteq> Finite 0 \<Longrightarrow> threshold_filter t xs = []"
    for xs :: "xrow list" and t
    by (cases xs) (auto simp: threshold_filter_def split: if_splits)
  {
    have nf: "\<not> isfinite (weight_of [''D'' \<mapsto> Finite 100] 1980 rec_AE)"
      by (simp add: weight_of_def rec_AE_cities lookup_area_def fdiv_nan_not_finite)
    from nonfinite_weight_is_zeroed [OF lookup_source_A lookup_target_D ex]
    obtain crosswalk warns where
      c: "calculate_weights box_geos [rec_AE] source_A target_D 2000 1980 = Inr (crosswalk, warns)"
      and l: "length crosswalk = length [rec_AE]"
      and r: "\<forall>i<length [rec_AE].
          xids (crosswalk ! i) = ids ([rec_AE] ! i) \<and> isfinite (weight (crosswalk ! i)) \<and>
          (\<not> isfinite (weight_of [''D'' \<mapsto> Finite 100] 1980 ([rec_AE] ! i)) \<longrightarrow> weight (crosswalk ! i) = Finite 0) \<and>
          (lookup_area [''D'' \<mapsto> Finite 100] (ids ([rec_AE] ! i) (city_col 1980)) = Finite 0 \<longrightarrow>
             weight (crosswalk ! i) = Finite 0) \<and>
          ((\<forall>k. ids ([rec_AE] ! i) (city_col 1980) = Some k \<longrightarrow> [''D'' \<mapsto> Finite 100] k = None) \<longrightarrow>
             weight (crosswalk ! i) = Finite 0)"
      and v: "filter (\<lambda>r. \<not> isfinite (weight_of [''D'' \<mapsto> Finite 100] 1980 r)) [rec_AE] \<noteq> [] \<longrightarrow>
         InvalidWeights (length (filter (\<lambda>r. \<not> isfinite (weight_of [''D'' \<mapsto> Finite 100] 1980 r)) [rec_AE])) \<in> set warns"
      and f: "\<forall>t. flt (Finite 0) t \<longrightarrow> (\<forall>x\<in>set (threshold_filter t crosswalk). weight x \<noteq> Finite 0)"
      by blast
    from r have w0: "weight (crosswalk ! 0) = Finite 0"
      by (simp add: rec_AE_cities)
    from v nf have iw: "InvalidWeights 1 \<in> set warns" by simp
    from single [of crosswalk default_weight_threshold] l w0 f pos
    have "threshold_filter default_weight_threshold crosswalk = []" by simp
    with c l w0 iw
    show "\<exists>crosswalk warns.
      calculate_weights box_geos [rec_AE] source_A target_D 2000 1980 = Inr (crosswalk, warns) \<and>
      length crosswalk = 1 \<and> weight (crosswalk ! 0) = Finite 0 \<and>
      InvalidWeights 1 \<in> set warns \<and>
      threshold_filter default_weight_threshold crosswalk = []"
      by auto
  }
  {
    have nf: "\<not> isfinite (weight_of [''E'' \<mapsto> Finite 0] 1980 rec_AE)"
      by (simp add: weight_of_def rec_AE_cities lookup_area_def fdiv_zero_not_finite)
    from nonfinite_weight_is_zeroed [OF lookup_source_A lookup_target_E0 ex]
    obtain crosswalk warns where
      c: "calculate_weights box_geos [rec_AE] source_A target_E0 2000 1980 = Inr (crosswalk, warns)"
      and l: "length crosswalk = length [rec_AE]"
      and r: "\<forall>i<length [rec_AE].
          xids (crosswalk ! i) = ids ([rec_AE] ! i) \<and> isfinite (weight (crosswalk ! i)) \<and>
          (\<not> isfinite (weight_of [''E'' \<mapsto> Finite 0] 1980 ([rec_AE] ! i)) \<longrightarrow> weight (crosswalk ! i) = Finite 0) \<and>
          (lookup_area [''E'' \<mapsto> Finite 0] (ids ([rec_AE] ! i) (city_col 1980)) = Finite 0 \<longrightarrow>
             weight (crosswalk ! i) = Finite 0) \<and>
          ((\<forall>k. ids ([rec_AE] ! i) (city_col 1980) = Some k \<longrightarrow> [''E'' \<mapsto> Finite 0] k = None) \<longrightarrow>
             weight (crosswalk ! i) = Finite 0)"
      and v: "filter (\<lambda>r. \<not> isfinite (weight_of [''E'' \<mapsto> Finite 0] 1980 r)) [rec_AE] \<noteq> [] \<longrightarrow>
         InvalidWeights (length (filter (\<lambda>r. \<not> isfinite (weight_of [''E'' \<mapsto> Finite 0] 1980 r)) [rec_AE])) \<in> set warns"
      and f: "\<forall>t. flt (Finite 0) t \<longrightarrow> (\<forall>x\<in>set (threshold_filter t crosswalk). weight x \<noteq> Finite 0)"
      by blast
    from r have w0: "weight (crosswalk ! 0) = Finite 0"
      by (simp add: rec_AE_cities lookup_area_def)
    from v nf have iw: "InvalidWeights 1 \<in> set warns" by simp
    from single [of crosswalk default_weight_threshold] l w0 f pos
    have "threshold_filter default_weight_threshold crosswalk = []" by simp
    with c l w0 iw
    show "\<exists>crosswalk warns.
      calculate_weights box_geos [rec_AE] source_A target_E0 2000 1980 = Inr (crosswalk, warns) \<and>
      length crosswalk = 1 \<and> weight (crosswalk ! 0) = Finite 0 \<and>
      InvalidWeights 1 \<in> set warns \<and>
      threshold_filter default_weight_threshold crosswalk = []"
      by auto
  }
qed

section \<open>Properties of the loader and of the normalizer\<close>

lemma validate_columns_None:
  "validate_columns cols s t = None \<longleftrightarrow> set cols \<subseteq> set (columns s) \<and> set cols \<subseteq> set (columns t)"
  by (induction cols) auto

lemma validate_columns_Some:
  "validate_columns cols s t = Some e \<Longrightarrow> \<exists>m. e = ValueError m"
  by (induction cols) (auto split: if_splits)


lemma load_shapefiles_ok:
  assumes "fs (shapefile_path project_root sy source_path) = Some (Shapefile S)"
    and "fs (shapefile_path project_root ty target_path) = Some (Shapefile T)"
    and "{''PREF'', ''CITY''} \<subseteq> set (columns S)" and "{''PREF'', ''CITY''} \<subseteq> set (columns T)"
  shows "load_shapefiles fs project_root sy ty source_path target_path =
           Inr (rename_columns sy S, rename_columns ty T)"
proof -
  have "validate_columns required_cols S T = None"
    unfolding validate_columns_None using assms(3,4) by (simp add: required_cols_def)
  then show ?thesis using assms(1,2)
    by (simp add: load_shapefiles_def Let_def read_file_def)
qed


lemma rename_columns_simps [simp]:
  "rows (rename_columns y g) = rows g" "crs (rename_columns y g) = crs g"
  by (simp_all add: rename_columns_def)


lemma well_formed_rename: "well_formed (rename_columns y g) = well_formed g"
  by (simp add: well_formed_def rename_columns_def)

lemma transform_rows_vals:
  "transform_rows lib src dst rs = Inr rs' \<Longrightarrow> map vals rs' = map vals rs"
  by (induction rs arbitrary: rs') (auto split: sum.splits)


lemma to_crs_Inr:
  assumes "to_crs lib g dst = Inr g'"
  shows "columns g' = columns g" "crs g' = dst" "map vals (rows g') = map vals (rows g)"
    "transform_rows lib (crs g) dst (rows g) = Inr (rows g')"
  using assms by (auto simp: to_crs_def split: sum.splits dest: transform_rows_vals)




lemma ensure_crs_match_Inr:
  assumes "ensure_crs_match lib s t = Inr (s', t')"
  shows "s' = s" "columns t' = columns t" "map vals (rows t') = map vals (rows t)" "crs t' = crs s"
  using assms by (auto simp: ensure_crs_match_def split: if_splits sum.splits dest: to_crs_Inr)


lemma rename_without_gun:
  "''GUN'' \<notin> set (columns g) \<Longrightarrow>
      rename_columns y g =
        g\<lparr>columns := map (\<lambda>c. if c = ''PREF'' then pref_col y
                                else if c = ''CITY'' then city_col y else c) (columns g)\<rparr>"
  by (simp add: rename_columns_def rename_label_def)

lemma rename_with_gun:
  "''GUN'' \<in> set (columns g) \<Longrightarrow>
      rename_columns y g =
        g\<lparr>columns := map (\<lambda>c. if c = ''PREF'' then pref_col y
                                else if c = ''CITY'' then city_col y
                                else if c = ''GUN'' then gun_col y else c) (columns g)\<rparr>"
  by (simp add: rename_columns_def rename_label_def)

lemma load_no_source:
  "fs (shapefile_path project_root sy source_path) = None \<Longrightarrow>
      load_shapefiles fs project_root sy ty source_path target_path =
        Inl (FileNotFoundError (''Source shapefile not found: '' @ shapefile_path project_root sy source_path))"
  by (simp add: load_shapefiles_def Let_def)

lemma load_no_target:
  "fs (shapefile_path project_root sy source_path) \<noteq> None \<Longrightarrow>
    fs (shapefile_path project_root ty target_path) = None \<Longrightarrow>
      load_shapefiles fs project_root sy ty source_path target_path =
        Inl (FileNotFoundError (''Target shapefile not found: '' @ shapefile_path project_root ty target_path))"
  by (simp add: load_shapefiles_def Let_def)

lemma load_bad_columns:
  assumes S: "fs (shapefile_path project_root sy source_path) = Some (Shapefile S)"
    and T: "fs (shapefile_path project_root ty target_path) = Some (Shapefile T)"
    and bad: "''PREF'' \<notin> set (columns S) \<or> ''CITY'' \<notin> set (columns S) \<or>
              ''PREF'' \<notin> set (columns T) \<or> ''CITY'' \<notin> set (columns T)"
  shows "\<exists>m. load_shapefiles fs project_root sy ty source_path target_path = Inl (ValueError m)"
proof -
  from bad have "\<not> (set required_cols \<subseteq> set (columns S) \<and> set required_cols \<subseteq> set (columns T))"
    by (auto simp: required_cols_def)
  then have "validate_columns required_cols S T \<noteq> None"
    unfolding validate_columns_None .
  then obtain e where e: "validate_columns required_cols S T = Some e" by blast
  from validate_columns_Some [OF e] obtain m where m: "e = ValueError m" by blast
  have "load_shapefiles fs project_root sy ty source_path target_path = Inl e"
    by (simp add: load_shapefiles_def Let_def read_file_def S T e)
  with m show ?thesis by blast
qed

text \<open>
  C8. \<^verbatim>\<open>load_shapefiles\<close> fails with \<^verbatim>\<open>FileNotFoundError\<close>, the message naming the
  path it tried, when the source file or the target file is absent; it fails with
  \<^verbatim>\<open>ValueError\<close> when \<^verbatim>\<open>PREF\<close> or \<^verbatim>\<open>CITY\<close> is no column of one of the two
  layers; with both columns in both layers it returns the two layers renamed, whether
  or not there is a column \<^verbatim>\<open>GUN\<close>. Without that column the renaming changes the two
  required labels only.
\<close>

theorem loader_failures_and_optional_gun:
  "(fs (shapefile_path project_root sy source_path) = None \<longrightarrow>
      load_shapefiles fs project_root sy ty source_path target_path =
        Inl (FileNotFoundError (''Source shapefile not found: '' @ shapefile_path project_root sy source_path))) \<and>
   (fs (shapefile_path project_root sy source_path) \<noteq> None \<and>
    fs (shapefile_path project_root ty target_path) = None \<longrightarrow>
      load_shapefiles fs project_root sy ty source_path target_path =
        Inl (FileNotFoundError (''Target shapefile not found: '' @ shapefile_path project_root ty target_path))) \<and>
   (fs (shapefile_path project_root sy source_path) = Some (Shapefile S) \<and>
    fs (shapefile_path project_root ty target_path) = Some (Shapefile T) \<and>
    (''PREF'' \<notin> set (columns S) \<or> ''CITY'' \<notin> set (columns S) \<or>
     ''PREF'' \<notin> set (columns T) \<or> ''CITY'' \<notin> set (columns T)) \<longrightarrow>
      (\<exists>m. load_shapefiles fs project_root sy ty source_path target_path = Inl (ValueError m))) \<and>
   (fs (shapefile_path project_root sy source_path) = Some (Shapefile S) \<and>
    fs (shapefile_path project_root ty target_path) = Some (Shapefile T) \<and>
    {''PREF'', ''CITY''} \<subseteq> set (columns S) \<and> {''PREF'', ''CITY''} \<subseteq> set (columns T) \<longrightarrow>
      load_shapefiles fs project_root sy ty source_path target_path =
        Inr (rename_columns sy S, rename_columns ty T)) \<and>
   (''GUN'' \<notin> set (columns g) \<longrightarrow>
      rename_columns y g =
        g\<lparr>columns := map (\<lambda>c. if c = ''PREF'' then pref_col y
                                else if c = ''CITY'' then city_col y else c) (columns g)\<rparr>) \<and>
   (''GUN'' \<in> set (columns g) \<longrightarrow>
      rename_columns y g =
        g\<lparr>columns := map (\<lambda>c. if c = ''PREF'' then pref_col y
                                else if c = ''CITY'' then city_col y
                                else if c = ''GUN'' then gun_col y else c) (columns g)\<rparr>)"
proof (intro conjI impI)
  assume "fs (shapefile_path project_root sy source_path) = None"
  then show "load_shapefiles fs project_root sy ty source_path target_path =
        Inl (FileNotFoundError (''Source shapefile not found: '' @ shapefile_path project_root sy source_path))"
    by (rule load_no_source)
next
  assume a: "fs (shapefile_path project_root sy source_path) \<noteq> None \<and>
    fs (shapefile_path project_root ty target_path) = None"
  show "load_shapefiles fs project_root sy ty source_path target_path =
        Inl (FileNotFoundError (''Target shapefile not found: '' @ shapefile_path project_root ty target_path))"
    by (rule load_no_target [OF a [THEN conjunct1] a [THEN conjunct2]])
next
  assume a: "fs (shapefile_path project_root sy source_path) = Some (Shapefile S) \<and>
    fs (shapefile_path project_root ty target_path) = Some (Shapefile T) \<and>
    (''PREF'' \<notin> set (columns S) \<or> ''CITY'' \<notin> set (columns S) \<or>
     ''PREF'' \<notin> set (columns T) \<or> ''CITY'' \<notin> set (columns T))"
  show "\<exists>m. load_shapefiles fs project_root sy ty source_path target_path = Inl (ValueError m)"
    by (rule load_bad_columns [OF a [THEN conjunct1] a [THEN conjunct2, THEN conjunct1]
          a [THEN conjunct2, THEN conjunct2]])
next
  assume a: "fs (shapefile_path project_root sy source_path) = Some (Shapefile S) \<and>
    fs (shapefile_path project_root ty target_path) = Some (Shapefile T) \<and>
    {''PREF'', ''CITY''} \<subseteq> set (columns S) \<and> {''PREF'', ''CITY''} \<subseteq> set (columns T)"
  show "load_shapefiles fs project_root sy ty source_path target_path =
        Inr (rename_columns sy S, rename_columns ty T)"
    by (rule load_shapefiles_ok [OF a [THEN conjunct1] a [THEN conjunct2, THEN conjunct1]
          a [THEN conjunct2, THEN conjunct2, THEN conjunct1]
          a [THEN conjunct2, THEN conjunct2, THEN conjunct2]])
next
  assume "''GUN'' \<notin> set (columns g)"
  then show "rename_columns y g =
        g\<lparr>columns := map (\<lambda>c. if c = ''PREF'' then pref_col y
                                else if c = ''CITY'' then city_col y else c) (columns g)\<rparr>"
    by (rule rename_without_gun)
next
  assume "''GUN'' \<in> set (columns g)"
  then show "rename_columns y g =
        g\<lparr>columns := map (\<lambda>c. if c = ''PREF'' then pref_col y
                                else if c = ''CITY'' then city_col y
                                else if c = ''GUN'' then gun_col y else c) (columns g)\<rparr>"
    by (rule rename_with_gun)
qed

lemma paths:
  "shapefile_path ''/repo'' 2000 None = shp_2000"
  "shapefile_path ''/repo'' 1980 None = shp_1980"
  "shapefile_path ''/repo'' 1980 (Some ''old/1980.shp'') = ''old/1980.shp''"
  by (simp_all add: shapefile_path_def path_join_def shp_2000_def shp_1980_def label_simps)

lemma paths_differ: "shp_2000 \<noteq> shp_1980" "shp_2000 \<noteq> ''old/1980.shp''"
  by (simp_all add: shp_2000_def shp_1980_def)

theorem loader_failures_and_optional_gun_witness:
  "load_shapefiles fs_nothing ''/repo'' 2000 1980 None None =
     Inl (FileNotFoundError (''Source shapefile not found: '' @ shp_2000)) \<and>
   load_shapefiles fs_source_only ''/repo'' 2000 1980 None (Some ''old/1980.shp'') =
     Inl (FileNotFoundError (''Target shapefile not found: '' @ ''old/1980.shp'')) \<and>
   (\<exists>m. load_shapefiles fs_nopref ''/repo'' 2000 1980 None None = Inl (ValueError m)) \<and>
   load_shapefiles fs_tiled ''/repo'' 2000 1980 None None =
     Inr (rename_columns 2000 raw_A, rename_columns 1980 raw_BC) \<and>
   columns (rename_columns 2000 raw_A) = [''PREF2000'', ''CITY2000''] \<and>
   columns (rename_columns 2000 raw_gun) = [''PREF2000'', ''CITY2000'', ''GUN2000'']"
proof (intro conjI)
  note L = loader_failures_and_optional_gun
  have "fs_nothing (shapefile_path ''/repo'' 2000 None) = None"
    by (simp add: fs_nothing_def)
  from L [where fs = fs_nothing and project_root = "''/repo''" and sy = 2000 and source_path = None and ty = 1980 and target_path = "None", THEN conjunct1, THEN mp, OF this]
  show "load_shapefiles fs_nothing ''/repo'' 2000 1980 None None =
     Inl (FileNotFoundError (''Source shapefile not found: '' @ shp_2000))"
    unfolding paths .
  have "fs_source_only (shapefile_path ''/repo'' 2000 None) \<noteq> None \<and>
      fs_source_only (shapefile_path ''/repo'' 1980 (Some ''old/1980.shp'')) = None"
    using paths_differ by (simp add: paths fs_source_only_def)
  from L [where fs = fs_source_only and project_root = "''/repo''" and sy = 2000 and source_path = None and ty = 1980 and target_path = "Some ''old/1980.shp''", THEN conjunct2, THEN conjunct1, THEN mp, OF this]
  show "load_shapefiles fs_source_only ''/repo'' 2000 1980 None (Some ''old/1980.shp'') =
     Inl (FileNotFoundError (''Target shapefile not found: '' @ ''old/1980.shp''))"
    unfolding paths .
  have "fs_nopref (shapefile_path ''/repo'' 2000 None) = Some (Shapefile raw_A) \<and>
      fs_nopref (shapefile_path ''/repo'' 1980 None) = Some (Shapefile raw_nopref) \<and>
      (''PREF'' \<notin> set (columns raw_A) \<or> ''CITY'' \<notin> set (columns raw_A) \<or>
       ''PREF'' \<notin> set (columns raw_nopref) \<or> ''CITY'' \<notin> set (columns raw_nopref))"
    using paths_differ by (simp add: paths fs_nopref_def raw_nopref_def)
  from L [where fs = fs_nopref and project_root = "''/repo''" and sy = 2000 and source_path = None and ty = 1980 and target_path = "None" and S = raw_A and T = raw_nopref, THEN conjunct2, THEN conjunct2, THEN conjunct1, THEN mp, OF this]
  show "\<exists>m. load_shapefiles fs_nopref ''/repo'' 2000 1980 None None = Inl (ValueError m)" .
  have "fs_tiled (shapefile_path ''/repo'' 2000 None) = Some (Shapefile raw_A) \<and>
      fs_tiled (shapefile_path ''/repo'' 1980 None) = Some (Shapefile raw_BC) \<and>
      {''PREF'', ''CITY''} \<subseteq> set (columns raw_A) \<and> {''PREF'', ''CITY''} \<subseteq> set (columns raw_BC)"
    using paths_differ by (simp add: paths fs_tiled_def raw_A_def raw_BC_def layer_def)
  from L [where fs = fs_tiled and project_root = "''/repo''" and sy = 2000 and source_path = None and ty = 1980 and target_path = "None" and S = raw_A and T = raw_BC, THEN conjunct2, THEN conjunct2, THEN conjunct2, THEN conjunct1, THEN mp, OF this]
  show "load_shapefiles fs_tiled ''/repo'' 2000 1980 None None =
     Inr (rename_columns 2000 raw_A, rename_columns 1980 raw_BC)" .
  have "''GUN'' \<notin> set (columns raw_A)"
    by (simp add: raw_A_def layer_def)
  from L [where g = raw_A and y = 2000, THEN conjunct2, THEN conjunct2, THEN conjunct2, THEN conjunct2, THEN conjunct1, THEN mp, OF this]
  show "columns (rename_columns 2000 raw_A) = [''PREF2000'', ''CITY2000'']"
    by (simp add: raw_A_def layer_def label_simps)
  have "''GUN'' \<in> set (columns raw_gun)"
    by (simp add: raw_gun_def)
  from L [where g = raw_gun and y = 2000, THEN conjunct2, THEN conjunct2, THEN conjunct2, THEN conjunct2, THEN conjunct2, THEN mp, OF this]
  show "columns (rename_columns 2000 raw_gun) = [''PREF2000'', ''CITY2000'', ''GUN2000'']"
    by (simp add: raw_gun_def label_simps)
qed

section \<open>Properties of the pipeline\<close>

lemma overlay_records_made:
  assumes "calculate_intersections lib source_gdf target_gdf sy ty = Inr recs" and "r \<in> set recs"
  shows "\<exists>s\<in>set (rows source_gdf). \<exists>t\<in>set (rows target_gdf). \<exists>g.
           intersection lib (geometry s) (geometry t) = Inr g \<and>
           \<not> fle (area lib g) area_floor \<and>
           r = make_record sy ty (columns source_gdf) s (columns target_gdf) t (area lib g) g"
proof -
  from overlay_record_origin [OF assms] obtain s t where
    st: "s \<in> set (rows source_gdf)" "t \<in> set (rows target_gdf)"
    "process_pair lib sy ty (columns source_gdf) (columns target_gdf) s t = Inr (Some r)"
    by blast
  from process_pair_Some [OF st(3)] st(1,2) show ?thesis by blast
qed




lemma create_crosswalk_empty:
  assumes "load_shapefiles fs project_root sy ty source_path target_path = Inr (src, tgt0)"
    and "ensure_crs_match lib src tgt0 = Inr (src, tgt)"
    and "calculate_intersections lib src tgt sy ty = Inr []"
  shows "create_crosswalk lib project_root fs sy ty source_path target_path output_path t = Inr ([], fs)"
  using assms by (simp add: create_crosswalk_def)

lemma create_crosswalk_weighted:
  assumes "load_shapefiles fs project_root sy ty source_path target_path = Inr (src, tgt0)"
    and "ensure_crs_match lib src tgt0 = Inr (src, tgt)"
    and "calculate_intersections lib src tgt sy ty = Inr recs" and "recs \<noteq> []"
    and "calculate_weights lib recs src tgt sy ty = Inr (cw0, warns)"
  shows "create_crosswalk lib project_root fs sy ty source_path target_path output_path t =
     Inr (threshold_filter t cw0,
          fs(output_file project_root sy ty output_path \<mapsto> Workbook (threshold_filter t cw0)))"
  using assms by (simp add: create_crosswalk_def Let_def save_crosswalk_def output_file_def)

lemma create_crosswalk_Inr:
  assumes "create_crosswalk lib project_root fs sy ty source_path target_path output_path t = Inr (tbl, fs')"
  shows "\<exists>src tgt0 tgt recs.
     load_shapefiles fs project_root sy ty source_path target_path = Inr (src, tgt0) \<and>
     ensure_crs_match lib src tgt0 = Inr (src, tgt) \<and>
     calculate_intersections lib src tgt sy ty = Inr recs \<and>
     (recs = [] \<and> tbl = [] \<and> fs' = fs \<or>
      recs \<noteq> [] \<and> (\<exists>cw0 warns. calculate_weights lib recs src tgt sy ty = Inr (cw0, warns) \<and>
         tbl = threshold_filter t cw0 \<and>
         fs' = fs(output_file project_root sy ty output_path \<mapsto> Workbook tbl)))"
proof -
  from assms obtain src tgt0 where
    ld: "load_shapefiles fs project_root sy ty source_path target_path = Inr (src, tgt0)"
    by (cases "load_shapefiles fs project_root sy ty source_path target_path")
      (auto simp: create_crosswalk_def)
  from assms ld obtain src' tgt where en0: "ensure_crs_match lib src tgt0 = Inr (src', tgt)"
    by (cases "ensure_crs_match lib src tgt0") (auto simp: create_crosswalk_def)
  from ensure_crs_match_Inr(1) [OF en0] en0 have en: "ensure_crs_match lib src tgt0 = Inr (src, tgt)"
    by simp
  from assms ld en obtain recs where ov: "calculate_intersections lib src tgt sy ty = Inr recs"
    by (cases "calculate_intersections lib src tgt sy ty") (auto simp: create_crosswalk_def)
  show ?thesis
  proof (cases "recs = []")
    case True
    with assms create_crosswalk_empty [OF ld en, of output_path t] ov ld en show ?thesis by auto
  next
    case False
    with assms ld en ov obtain cw0 warns where
      cw: "calculate_weights lib recs src tgt sy ty = Inr (cw0, warns)"
      by (cases "calculate_weights lib recs src tgt sy ty") (auto simp: create_crosswalk_def)
    from create_crosswalk_weighted [OF ld en ov False cw, of output_path t] assms
    have "tbl = threshold_filter t cw0"
      "fs' = fs(output_file project_root sy ty output_path \<mapsto> Workbook tbl)"
      by simp_all
    with ld en ov False cw show ?thesis by blast
  qed
qed



lemma load_tiled:
  "load_shapefiles fs_tiled ''/repo'' 2000 1980 None None = Inr (source_A, target_BC)"
proof -
  have "load_shapefiles fs_tiled ''/repo'' 2000 1980 None None =
      Inr (rename_columns 2000 raw_A, rename_columns 1980 raw_BC)"
    by (rule load_shapefiles_ok)
      (simp_all add: paths paths_differ fs_tiled_def raw_A_def raw_BC_def layer_def)
  then show ?thesis by (simp add: source_A_def target_BC_def raw_A_def)
qed


lemma same_crs:
  "ensure_crs_match box_geos source_A target_BC = Inr (source_A, target_BC)"
  "ensure_crs_match box_geos source_A target_far = Inr (source_A, target_far)"
  by (simp_all add: ensure_crs_match_def source_A_def target_BC_def target_far_def raw_BC_def layer_def
      rename_columns_def)

lemma overlay_tiled:
  "calculate_intersections box_geos source_A target_BC 2000 1980 = Inr [rec_AB, rec_AC]"
  by (simp add: calculate_intersections_def fixture_simps target_BC_def raw_BC_def rec_AB_def rec_AC_def
      possible_matches_def process_pair_def box_geos_def area_floor_def)


lemma weights_tiled:
  "calculate_weights box_geos [rec_AB, rec_AC] source_A target_BC 2000 1980 =
     Inr ([\<lparr> xids = ids rec_AB, weight = Finite 1 \<rparr>, \<lparr> xids = ids rec_AC, weight = Finite 1 \<rparr>], [])"
  by (simp add: calculate_weights_def fixture_simps target_BC_def raw_BC_def rec_AB_def rec_AC_def
      make_record_def getattr_def cell_def
      label_simps column_of_def map_areas_def lookup_area_def quotients_def warn_def repair_def
      box_geos_def Let_def)

lemma out_path: "output_file ''/repo'' 2000 1980 None = xlsx_2000_1980"
  by (simp add: output_file_def resolve_output_def crosswalk_path_def path_join_def is_absolute_def
      xlsx_2000_1980_def label_simps)



lemma flt_irrefl: "\<not> flt a a"
  by (cases a) simp_all

text \<open>
  C2. The filter keeps exactly the rows whose weight is greater than the threshold, in
  their order; between finite numbers that is the strict order of the reals, so a
  weight equal to the threshold is dropped. At the default threshold 0.001 a weight of
  0.0005 is dropped and a weight of 0.002 is kept. The table that
  \<^verbatim>\<open>create_crosswalk\<close> returns is this filter applied to the weighted rows.
\<close>

theorem threshold_filter_is_strict:
  "set (threshold_filter t crosswalk) = {r \<in> set crosswalk. fgt (weight r) t} \<and>
   threshold_filter t crosswalk = filter (\<lambda>r. fgt (weight r) t) crosswalk \<and>
   (fgt (Finite w) (Finite c) \<longleftrightarrow> c < w) \<and>
   \<not> fgt t t \<and>
   default_weight_threshold = Finite (1 / 1000) \<and>
   \<not> fgt (Finite (5 / 10000)) default_weight_threshold \<and>
   fgt (Finite (2 / 1000)) default_weight_threshold \<and>
   (create_crosswalk lib project_root fs sy ty source_path target_path output_path t = Inr (tbl, fs') \<longrightarrow>
      (\<exists>src tgt0 tgt recs.
         load_shapefiles fs project_root sy ty source_path target_path = Inr (src, tgt0) \<and>
         ensure_crs_match lib src tgt0 = Inr (src, tgt) \<and>
         calculate_intersections lib src tgt sy ty = Inr recs \<and>
         (recs = [] \<and> tbl = [] \<or>
          (\<exists>cw0 warns. calculate_weights lib recs src tgt sy ty = Inr (cw0, warns) \<and>
             tbl = threshold_filter t cw0))))"
proof (intro conjI impI)
  assume "create_crosswalk lib project_root fs sy ty source_path target_path output_path t = Inr (tbl, fs')"
  from create_crosswalk_Inr [OF this]
  show "\<exists>src tgt0 tgt recs.
         load_shapefiles fs project_root sy ty source_path target_path = Inr (src, tgt0) \<and>
         ensure_crs_match lib src tgt0 = Inr (src, tgt) \<and>
         calculate_intersections lib src tgt sy ty = Inr recs \<and>
         (recs = [] \<and> tbl = [] \<or>
          (\<exists>cw0 warns. calculate_weights lib recs src tgt sy ty = Inr (cw0, warns) \<and>
             tbl = threshold_filter t cw0))"
    by blast
qed (auto simp: threshold_filter_def fgt_def default_weight_threshold_def flt_irrefl)

lemma strips_run:
  "map_sum id (map weight \<circ> fst)
     (create_crosswalk box_geos ''/repo'' fs_strips 2000 1980 None None None default_weight_threshold) =
     Inr [Finite (1 / 500)]"
proof -
  have ld: "load_shapefiles fs_strips ''/repo'' 2000 1980 None None =
      Inr (rename_columns 2000 raw_strips, rename_columns 1980 raw_T)"
    by (rule load_shapefiles_ok)
      (simp_all add: paths paths_differ fs_strips_def raw_strips_def raw_T_def layer_def)
  show ?thesis
    by (simp add: create_crosswalk_def ld ensure_crs_match_def raw_strips_def raw_T_def layer_def
        rename_columns_def rename_label_def
        calculate_intersections_def possible_matches_def process_pair_def box_geos_def
        area_floor_def make_record_def getattr_def cell_def label_simps calculate_weights_def
        column_of_def map_areas_def lookup_area_def quotients_def warn_def repair_def
        threshold_filter_def default_weight_threshold_def fgt_def Let_def)
qed

theorem threshold_filter_is_strict_witness:
  "(\<exists>tbl fs'.
      create_crosswalk box_geos ''/repo'' fs_strips 2000 1980 None None None default_weight_threshold =
        Inr (tbl, fs') \<and>
      map weight tbl = [Finite (1 / 500)] \<and>
      (\<exists>src tgt0 tgt recs cw0 warns.
         load_shapefiles fs_strips ''/repo'' 2000 1980 None None = Inr (src, tgt0) \<and>
         ensure_crs_match box_geos src tgt0 = Inr (src, tgt) \<and>
         calculate_intersections box_geos src tgt 2000 1980 = Inr recs \<and>
         calculate_weights box_geos recs src tgt 2000 1980 = Inr (cw0, warns) \<and>
         tbl = threshold_filter default_weight_threshold cw0))"
proof -
  from strips_run obtain tbl fs' where
    run: "create_crosswalk box_geos ''/repo'' fs_strips 2000 1980 None None None default_weight_threshold =
        Inr (tbl, fs')" and w: "map weight tbl = [Finite (1 / 500)]"
    by (cases "create_crosswalk box_geos ''/repo'' fs_strips 2000 1980 None None None default_weight_threshold")
      auto
  from w have ne: "tbl \<noteq> []" by auto
  note T = threshold_filter_is_strict [where lib = box_geos and project_root = "''/repo''" and fs = fs_strips
      and sy = 2000 and ty = 1980 and source_path = None and target_path = None and output_path = None
      and t = default_weight_threshold and tbl = tbl and fs' = fs']
  from T [THEN conjunct2, THEN conjunct2, THEN conjunct2, THEN conjunct2, THEN conjunct2,
      THEN conjunct2, THEN conjunct2, THEN mp, OF run] ne
  have "\<exists>src tgt0 tgt recs cw0 warns.
         load_shapefiles fs_strips ''/repo'' 2000 1980 None None = Inr (src, tgt0) \<and>
         ensure_crs_match box_geos src tgt0 = Inr (src, tgt) \<and>
         calculate_intersections box_geos src tgt 2000 1980 = Inr recs \<and>
         calculate_weights box_geos recs src tgt 2000 1980 = Inr (cw0, warns) \<and>
         tbl = threshold_filter default_weight_threshold cw0"
    by blast
  then have ex: "\<exists>src tgt0 tgt recs cw0 warns.
         load_shapefiles fs_strips ''/repo'' 2000 1980 None None = Inr (src, tgt0) \<and>
         ensure_crs_match box_geos src tgt0 = Inr (src, tgt) \<and>
         calculate_intersections box_geos src tgt 2000 1980 = Inr recs \<and>
         calculate_weights box_geos recs src tgt 2000 1980 = Inr (cw0, warns) \<and>
         tbl = threshold_filter default_weight_threshold cw0" .
  show ?thesis
    by (rule exI [of _ tbl], rule exI [of _ fs'], intro conjI) (rule run, rule w, rule ex)
qed







lemma run_tiled:
  "create_crosswalk box_geos ''/repo'' fs_tiled 2000 1980 None None None default_weight_threshold =
     Inr (tbl_tiled, fs_tiled(xlsx_2000_1980 \<mapsto> Workbook tbl_tiled))"
proof -
  have f: "threshold_filter default_weight_threshold tbl_tiled = tbl_tiled"
    by (simp add: threshold_filter_def fgt_def default_weight_threshold_def tbl_tiled_def)
  have ne: "[rec_AB, rec_AC] \<noteq> []" by simp
  from create_crosswalk_weighted [OF load_tiled same_crs(1) overlay_tiled ne
      weights_tiled [folded tbl_tiled_def], of None default_weight_threshold]
  show ?thesis unfolding f out_path .
qed







lemma fle_flt_trans: "fle a b \<Longrightarrow> flt b c \<Longrightarrow> flt a c"
  by (cases a; cases b; cases c) simp_all

lemma ratio_at_most_one:
  "fle a b \<Longrightarrow> \<not> fle a area_floor \<Longrightarrow> fle (repair (fdiv a b)) (Finite 1)"
  by (cases a; cases b) (auto simp: repair_def area_floor_def divide_le_eq_1 not_le)

lemma emitted_row:
  assumes run: "create_crosswalk lib project_root fs sy ty source_path target_path output_path t = Inr (tbl, fs')"
    and r: "r \<in> set tbl"
  shows "\<exists>src tgt0 tgt recs ta x.
     load_shapefiles fs project_root sy ty source_path target_path = Inr (src, tgt0) \<and>
     ensure_crs_match lib src tgt0 = Inr (src, tgt) \<and>
     calculate_intersections lib src tgt sy ty = Inr recs \<and>
     area_lookup lib (columns tgt) (city_col ty) (rows tgt) Map.empty = Inr ta \<and>
     x \<in> set recs \<and> weight r = repair (weight_of ta ty x) \<and> fgt (weight r) t"
proof -
  from create_crosswalk_Inr [OF run] r obtain src tgt0 tgt recs cw0 warns where
    ld: "load_shapefiles fs project_root sy ty source_path target_path = Inr (src, tgt0)" and
    en: "ensure_crs_match lib src tgt0 = Inr (src, tgt)" and
    ov: "calculate_intersections lib src tgt sy ty = Inr recs" and
    cw: "calculate_weights lib recs src tgt sy ty = Inr (cw0, warns)" and
    tb: "tbl = threshold_filter t cw0"
    by auto
  from calculate_weights_Inr [OF cw] obtain ta where
    ta: "area_lookup lib (columns tgt) (city_col ty) (rows tgt) Map.empty = Inr ta" and
    c: "cw0 = map (\<lambda>r. \<lparr> xids = ids r, weight = repair (weight_of ta ty r) \<rparr>) recs"
    by blast
  from r tb have "r \<in> set cw0" and g: "fgt (weight r) t"
    by (simp_all add: threshold_filter_def)
  with c obtain x where "x \<in> set recs" "weight r = repair (weight_of ta ty x)"
    by auto
  with ld en ov ta g show ?thesis by blast
qed

text \<open>
  C3, as the code has it. Under a threshold that is not negative, every row of the
  table that \<^verbatim>\<open>create_crosswalk\<close> returns has a finite weight above the threshold,
  hence above 0. The weight is at most 1 when no two rows of the target layer have the
  same city and the area of an intersection is at most the area of the target polygon.
\<close>

theorem emitted_weight_positive_finite:
  assumes run: "create_crosswalk lib project_root fs sy ty source_path target_path output_path t = Inr (tbl, fs')"
      and t0: "fle (Finite 0) t" and r: "r \<in> set tbl"
  shows "isfinite (weight r) \<and> fgt (weight r) t \<and> fgt (weight r) (Finite 0) \<and>
         (load_shapefiles fs project_root sy ty source_path target_path = Inr (src, tgt0) \<and>
          ensure_crs_match lib src tgt0 = Inr (src, tgt) \<and>
          distinct (map (\<lambda>f. cell (columns tgt) f (city_col ty)) (rows tgt)) \<and>
          (\<forall>s\<in>set (rows src). \<forall>u\<in>set (rows tgt). \<forall>g.
              intersection lib (geometry s) (geometry u) = Inr g \<longrightarrow>
              fle (area lib g) (area lib (geometry u))) \<longrightarrow>
            fle (weight r) (Finite 1))"
proof -
  from emitted_row [OF run r] obtain src1 tgt1 tgt2 recs ta x where
    ld: "load_shapefiles fs project_root sy ty source_path target_path = Inr (src1, tgt1)" and
    en: "ensure_crs_match lib src1 tgt1 = Inr (src1, tgt2)" and
    ov: "calculate_intersections lib src1 tgt2 sy ty = Inr recs" and
    ta: "area_lookup lib (columns tgt2) (city_col ty) (rows tgt2) Map.empty = Inr ta" and
    x: "x \<in> set recs" and w: "weight r = repair (weight_of ta ty x)" and g: "fgt (weight r) t"
    by blast
  have fin: "isfinite (weight r)" unfolding w by (rule isfinite_repair)
  from fle_flt_trans [OF t0] g have pos: "fgt (weight r) (Finite 0)" by (simp add: fgt_def)
  have one: "fle (weight r) (Finite 1)"
    if h: "load_shapefiles fs project_root sy ty source_path target_path = Inr (src, tgt0) \<and>
          ensure_crs_match lib src tgt0 = Inr (src, tgt) \<and>
          distinct (map (\<lambda>f. cell (columns tgt) f (city_col ty)) (rows tgt)) \<and>
          (\<forall>s\<in>set (rows src). \<forall>u\<in>set (rows tgt). \<forall>g.
              intersection lib (geometry s) (geometry u) = Inr g \<longrightarrow>
              fle (area lib g) (area lib (geometry u)))"
  proof -
    from h ld have e1: "src1 = src" "tgt1 = tgt0" by simp_all
    with h en have e2: "tgt2 = tgt" by simp
    note ov' = ov [unfolded e1 e2] and ta' = ta [unfolded e2]
    from overlay_records_made [OF ov' x] obtain s u k where
      s: "s \<in> set (rows src)" and u: "u \<in> set (rows tgt)" and
      i: "intersection lib (geometry s) (geometry u) = Inr k" and
      nf: "\<not> fle (area lib k) area_floor" and
      m: "x = make_record sy ty (columns src) s (columns tgt) u (area lib k) k"
      by blast
    from area_lookup_cells [OF ta' u] obtain c where c: "cell (columns tgt) u (city_col ty) = Some c"
      by blast
    from h have d: "distinct (map (\<lambda>f. cell (columns tgt) f (city_col ty)) (rows tgt))" by simp
    from area_lookup_distinct [OF ta' u c d] have l: "ta c = Some (area lib (geometry u))" .
    have q: "weight_of ta ty x = fdiv (area lib k) (area lib (geometry u))"
      unfolding m by (simp add: weight_of_def ids_target_city getattr_def c lookup_area_def l)
    from h s u i have "fle (area lib k) (area lib (geometry u))" by blast
    from ratio_at_most_one [OF this nf] show ?thesis unfolding w q .
  qed
  from fin g pos one show ?thesis by blast
qed

text \<open>
  Without the first condition the bound fails: the lookup is keyed by the city alone,
  so with two target rows of one city a record of the first row is divided by the
  area of the second.
\<close>

theorem weight_can_exceed_one:
  "map_sum id (map weight \<circ> fst)
     (create_crosswalk box_geos ''/repo'' fs_twice 2000 1980 None None None default_weight_threshold) =
     Inr [Finite 100] \<and>
   \<not> fle (Finite 100) (Finite 1)"
proof -
  have ld: "load_shapefiles fs_twice ''/repo'' 2000 1980 None None =
      Inr (rename_columns 2000 raw_A, rename_columns 1980 raw_twice)"
    by (rule load_shapefiles_ok)
      (simp_all add: paths paths_differ fs_twice_def raw_A_def raw_twice_def layer_def)
  show ?thesis
    by (simp add: create_crosswalk_def ld ensure_crs_match_def raw_A_def raw_twice_def layer_def
        rename_columns_def rename_label_def
        calculate_intersections_def possible_matches_def process_pair_def box_geos_def
        area_floor_def make_record_def getattr_def cell_def label_simps calculate_weights_def
        column_of_def map_areas_def lookup_area_def quotients_def warn_def repair_def
        threshold_filter_def default_weight_threshold_def fgt_def Let_def)
qed

theorem emitted_weight_positive_finite_witness:
  "isfinite (weight \<lparr> xids = ids rec_AB, weight = Finite 1 \<rparr>) \<and>
   fgt (weight \<lparr> xids = ids rec_AB, weight = Finite 1 \<rparr>) default_weight_threshold \<and>
   fgt (weight \<lparr> xids = ids rec_AB, weight = Finite 1 \<rparr>) (Finite 0) \<and>
   fle (weight \<lparr> xids = ids rec_AB, weight = Finite 1 \<rparr>) (Finite 1)"
proof -
  have t0: "fle (Finite 0) default_weight_threshold"
    by (simp add: default_weight_threshold_def)
  have r: "\<lparr> xids = ids rec_AB, weight = Finite 1 \<rparr> \<in> set tbl_tiled"
    by (simp add: tbl_tiled_def)
  have d: "distinct (map (\<lambda>f. cell (columns target_BC) f (city_col 1980)) (rows target_BC))"
    by (simp add: target_BC_def raw_BC_def layer_def rename_columns_def rename_label_def cell_def
        label_simps)
  have m: "\<forall>s\<in>set (rows source_A). \<forall>u\<in>set (rows target_BC). \<forall>g.
              intersection box_geos (geometry s) (geometry u) = Inr g \<longrightarrow>
              fle (area box_geos g) (area box_geos (geometry u))"
    by (auto simp: source_A_def target_BC_def raw_BC_def layer_def box_geos_def)
  from load_tiled same_crs(1) d m have h:
    "load_shapefiles fs_tiled ''/repo'' 2000 1980 None None = Inr (source_A, target_BC) \<and>
     ensure_crs_match box_geos source_A target_BC = Inr (source_A, target_BC) \<and>
     distinct (map (\<lambda>f. cell (columns target_BC) f (city_col 1980)) (rows target_BC)) \<and>
     (\<forall>s\<in>set (rows source_A). \<forall>u\<in>set (rows target_BC). \<forall>g.
              intersection box_geos (geometry s) (geometry u) = Inr g \<longrightarrow>
              fle (area box_geos g) (area box_geos (geometry u)))"
    by (intro conjI)
  note E = emitted_weight_positive_finite [OF run_tiled t0 r,
      where src = source_A and ?tgt0.0 = target_BC and tgt = target_BC]
  from E [THEN conjunct2, THEN conjunct2, THEN conjunct2, THEN mp, OF h]
    E [THEN conjunct1] E [THEN conjunct2, THEN conjunct1]
    E [THEN conjunct2, THEN conjunct2, THEN conjunct1]
  show ?thesis by (intro conjI)
qed

end
